theory Spec2Isabelle
  imports Main "HOL-Library.Word"
begin

section \<open>Epoch processing: rewards and penalties\<close>

text \<open>
  Source: \<^verbatim>\<open>packages/state-transition/src/epoch/processRewardsAndPenalties.ts\<close>.
  Epochs and slots are non-negative integers and modelled as \<open>nat\<close>.
\<close>

subsection \<open>JavaScript numbers\<close>

text \<open>
  Balances, rewards and penalties are JavaScript numbers, that is doubles, holding gwei
  amounts. The model has the doubles whose value is an integer (\<open>Num\<close>; the two zeros
  are one value), the two infinities and \<^verbatim>\<open>NaN\<close>, and the value \<^verbatim>\<open>undefined\<close>, which
  reading an array beyond its end gives. Doubles with a fractional part are not in the
  model.
\<close>

datatype number = Num int | Infinity | MinusInfinity | NaN | Undefined

text \<open>The number of binary digits of a natural number.\<close>

fun bitLength :: "nat \<Rightarrow> nat" where
  "bitLength n = (if n = 0 then 0 else Suc (bitLength (n div 2)))"

declare bitLength.simps [simp del]

text \<open>
  The double nearest to an integer, were the exponent of doubles unbounded: an integer
  of at most 53 binary digits is a double; a longer one is rounded to 53 digits, to the
  nearest, and to the even one of two that are as near.
\<close>

definition roundDouble :: "int \<Rightarrow> int" where
  "roundDouble x =
     (if \<bar>x\<bar> \<le> 2 ^ 53 then x
      else
        (let a = nat \<bar>x\<bar>;
             e = bitLength a - 53;
             q = a div 2 ^ e;
             r = a mod 2 ^ e;
             q' = (if 2 ^ e < 2 * r \<or> (2 * r = 2 ^ e \<and> odd q) then q + 1 else q)
         in sgn x * int (q' * 2 ^ e)))"

text \<open>The result of an operation whose exact value is an integer: it overflows to an infinity.\<close>

definition fromInteger :: "int \<Rightarrow> number" where
  "fromInteger x =
     (if 2 ^ 1024 \<le> roundDouble x then Infinity
      else if roundDouble x \<le> - (2 ^ 1024) then MinusInfinity
      else Num (roundDouble x))"

text \<open>The operators \<^verbatim>\<open>-x\<close>, \<^verbatim>\<open>x + y\<close> and \<^verbatim>\<open>x - y\<close>, the function \<^verbatim>\<open>Math.max\<close> and \<^verbatim>\<open>x ?? y\<close>.\<close>

fun numberNegate :: "number \<Rightarrow> number" where
  "numberNegate (Num a) = Num (- a)"
| "numberNegate Infinity = MinusInfinity"
| "numberNegate MinusInfinity = Infinity"
| "numberNegate NaN = NaN"
| "numberNegate Undefined = NaN"

fun numberPlus :: "number \<Rightarrow> number \<Rightarrow> number" where
  "numberPlus (Num a) (Num b) = fromInteger (a + b)"
| "numberPlus NaN y = NaN"
| "numberPlus x NaN = NaN"
| "numberPlus Undefined y = NaN"
| "numberPlus x Undefined = NaN"
| "numberPlus Infinity MinusInfinity = NaN"
| "numberPlus MinusInfinity Infinity = NaN"
| "numberPlus Infinity y = Infinity"
| "numberPlus x Infinity = Infinity"
| "numberPlus MinusInfinity y = MinusInfinity"
| "numberPlus x MinusInfinity = MinusInfinity"

definition numberMinus :: "number \<Rightarrow> number \<Rightarrow> number" where
  "numberMinus x y = numberPlus x (numberNegate y)"

fun mathMax :: "number \<Rightarrow> number \<Rightarrow> number" where
  "mathMax (Num a) (Num b) = Num (max a b)"
| "mathMax NaN y = NaN"
| "mathMax x NaN = NaN"
| "mathMax Undefined y = NaN"
| "mathMax x Undefined = NaN"
| "mathMax Infinity y = Infinity"
| "mathMax x Infinity = Infinity"
| "mathMax MinusInfinity y = y"
| "mathMax x MinusInfinity = x"

definition nullish :: "number \<Rightarrow> number \<Rightarrow> number" where
  "nullish x y = (if x = Undefined then y else x)"

text \<open>
  Reading and writing an array of numbers at an index: \<^verbatim>\<open>xs[i]\<close> is \<^verbatim>\<open>undefined\<close>
  beyond the end, and \<^verbatim>\<open>xs[i] = v\<close> beyond the end makes the array longer.
\<close>

definition elementAt :: "number list \<Rightarrow> nat \<Rightarrow> number" where
  "elementAt xs i = (if i < length xs then xs ! i else Undefined)"

definition assign :: "number list \<Rightarrow> nat \<Rightarrow> number \<Rightarrow> number list" where
  "assign xs i v =
     (if i < length xs then xs[i := v]
      else xs @ replicate (i - length xs) Undefined @ [v])"


subsection \<open>processRewardsAndPenalties\<close>

text \<open>
  Modelled from the spec: the constant \<^verbatim>\<open>GENESIS_EPOCH\<close> of \<^verbatim>\<open>@lodestar/params\<close> is
  not part of the sources; the genesis state of the spec is at slot 0, epoch 0.
\<close>

definition GENESIS_EPOCH :: nat where
  "GENESIS_EPOCH = 0"

text \<open>The enumeration \<^verbatim>\<open>ForkSeq\<close> of \<^verbatim>\<open>@lodestar/params\<close>.\<close>

datatype ForkSeq = phase0 | altair | bellatrix | capella | deneb

text \<open>
  The part of \<^verbatim>\<open>EpochTransitionCache\<close> and of \<^verbatim>\<open>CachedBeaconStateAllForks\<close> that
  the function reads or writes. \<open>cached_balances\<close> is the content of the tree view
  \<^verbatim>\<open>state.balances\<close>; \<open>cache_balances\<close> is the optional array \<^verbatim>\<open>cache.balances\<close>.
\<close>

record EpochTransitionCache =
  currentEpoch :: nat
  cache_balances :: "number list option"

record CachedBeaconStateAllForks =
  cached_slot :: nat
  cached_balances :: "number list"

text \<open>
  Operations on the balances tree view. \<open>GetAll\<close> is \<^verbatim>\<open>state.balances.getAll()\<close>,
  \<open>ToViewDU\<close> is \<^verbatim>\<open>ssz.phase0.Balances.toViewDU(balances)\<close> assigned to
  \<^verbatim>\<open>state.balances\<close>, which builds the whole tree from an array, and \<open>SetAt\<close> is the
  mutation of one leaf, \<^verbatim>\<open>state.balances.set(i, v)\<close>. A run of the function yields the
  list of the operations it performed, in order.
\<close>

datatype BalancesTreeOp = GetAll | SetAt nat number | ToViewDU "number list"

text \<open>
  Modelled from the spec: \<^verbatim>\<open>increaseBalanceWithVal\<close> and \<^verbatim>\<open>decreaseBalanceWithVal\<close>
  are imported from \<^verbatim>\<open>../util/index.js\<close>, which is not part of the sources. The spec
  says that rewards and penalties are applied to balances and that balances are updated
  with saturating arithmetic at zero (no underflow): \<^verbatim>\<open>balance + delta\<close> and
  \<^verbatim>\<open>Math.max(0, balance - delta)\<close>.
\<close>

definition increaseBalanceWithVal :: "number \<Rightarrow> number \<Rightarrow> number" where
  "increaseBalanceWithVal balance delta = numberPlus balance delta"

definition decreaseBalanceWithVal :: "number \<Rightarrow> number \<Rightarrow> number" where
  "decreaseBalanceWithVal balance delta = mathMax (Num 0) (numberMinus balance delta)"

text \<open>
  \<^verbatim>\<open>getRewardsAndPenalties\<close> dispatches on the fork of the state's slot. The three
  functions it calls (\<^verbatim>\<open>state.config.getForkSeq\<close>, \<^verbatim>\<open>getAttestationDeltas\<close>,
  \<^verbatim>\<open>getRewardsAndPenaltiesAltair\<close>) are not part of the sources and are parameters.
\<close>

definition getRewardsAndPenalties ::
  "(nat \<Rightarrow> ForkSeq) \<Rightarrow>
   (CachedBeaconStateAllForks \<Rightarrow> EpochTransitionCache \<Rightarrow> number list \<times> number list) \<Rightarrow>
   (CachedBeaconStateAllForks \<Rightarrow> EpochTransitionCache \<Rightarrow> number list \<times> number list) \<Rightarrow>
   CachedBeaconStateAllForks \<Rightarrow> EpochTransitionCache \<Rightarrow> number list \<times> number list" where
  "getRewardsAndPenalties getForkSeq getAttestationDeltas getRewardsAndPenaltiesAltair
     state epochTransitionCache =
     (let fork = getForkSeq (cached_slot state)
      in if fork = phase0 then getAttestationDeltas state epochTransitionCache
         else getRewardsAndPenaltiesAltair state epochTransitionCache)"

text \<open>
  The \<^verbatim>\<open>for\<close> loop of \<^verbatim>\<open>processRewardsAndPenalties\<close>, from index \<open>i\<close> up to \<open>len\<close>.
\<close>

function applyDeltas ::
  "nat \<Rightarrow> nat \<Rightarrow> number list \<Rightarrow> number list \<Rightarrow> number list \<Rightarrow> number list \<Rightarrow> number list" where
  "applyDeltas i len rewards penalties slashingPenalties balances =
     (if i < len then
        (let balance = elementAt balances i;
             balance = increaseBalanceWithVal balance (elementAt rewards i);
             balance = decreaseBalanceWithVal balance
                         (numberPlus (elementAt penalties i)
                            (nullish (elementAt slashingPenalties i) (Num 0)))
         in applyDeltas (i + 1) len rewards penalties slashingPenalties
              (assign balances i balance))
      else balances)"
  by pat_completeness auto
termination
  by (relation "measure (\<lambda>(i, len, _). len - i)") auto

declare applyDeltas.simps [simp del]

text \<open>
  \<^verbatim>\<open>processRewardsAndPenalties(state, cache, slashingPenalties = [])\<close>. The result is
  the state and the cache after the call and the tree operations performed.
\<close>

definition processRewardsAndPenalties ::
  "(nat \<Rightarrow> ForkSeq) \<Rightarrow>
   (CachedBeaconStateAllForks \<Rightarrow> EpochTransitionCache \<Rightarrow> number list \<times> number list) \<Rightarrow>
   (CachedBeaconStateAllForks \<Rightarrow> EpochTransitionCache \<Rightarrow> number list \<times> number list) \<Rightarrow>
   CachedBeaconStateAllForks \<Rightarrow> EpochTransitionCache \<Rightarrow> number list \<Rightarrow>
   CachedBeaconStateAllForks \<times> EpochTransitionCache \<times> BalancesTreeOp list" where
  "processRewardsAndPenalties getForkSeq getAttestationDeltas getRewardsAndPenaltiesAltair
     state cache slashingPenalties =
     (if currentEpoch cache = GENESIS_EPOCH then (state, cache, [])
      else
        (case getRewardsAndPenalties getForkSeq getAttestationDeltas
                getRewardsAndPenaltiesAltair state cache of
           (rewards, penalties) \<Rightarrow>
             (let balances = applyDeltas 0 (length rewards) rewards penalties slashingPenalties
                               (cached_balances state)
              in (state\<lparr>cached_balances := balances\<rparr>,
                  cache\<lparr>cache_balances := Some balances\<rparr>,
                  [GetAll, ToViewDU balances]))))"

section \<open>Beacon chain: data\<close>

text \<open>
  Source: \<^verbatim>\<open>packages/lodestar/src/chain/factory/attestation/index.ts\<close>, which holds the
  function \<^verbatim>\<open>assembleAttestation\<close> and the class \<^verbatim>\<open>BeaconChain\<close>. The type
  declarations (\<^verbatim>\<open>../types\<close>) are not part of the sources; the records below have the
  fields that the code reads or writes. A root is a byte buffer; slots, epochs, indices
  and balances are JavaScript numbers that hold non-negative integers.
\<close>

type_synonym Hash = "8 word list"

record Checkpoint =
  epoch :: nat
  root :: Hash

record Eth1Data =
  depositCount :: nat

record Validator =
  effectiveBalance :: nat

record BeaconState =
  slot :: nat
  genesisTime :: nat
  validators :: "Validator list"
  balances :: "nat list"
  currentJustifiedCheckpoint :: Checkpoint
  finalizedCheckpoint :: Checkpoint
  eth1DepositIndex :: nat
  eth1Data :: Eth1Data

text \<open>The fields of a block that the chain reads; \<open>body\<close> stands for all the others.\<close>

record BeaconBlock =
  block_slot :: nat
  parentRoot :: Hash
  stateRoot :: Hash
  body :: nat

record AttestationData =
  beaconBlockRoot :: Hash
  source :: Checkpoint
  target :: Checkpoint

record Attestation =
  aggregationBits :: "bool list"
  data :: AttestationData

text \<open>\<open>indexed_signature = None\<close> is the JavaScript value \<^verbatim>\<open>undefined\<close>.\<close>

record IndexedAttestation =
  custodyBit0Indices :: "nat list"
  custodyBit1Indices :: "nat list"
  indexed_data :: AttestationData
  indexed_signature :: "Hash option"

record Deposit =
  deposit_data :: "8 word list"

text \<open>The parameters \<^verbatim>\<open>config.params\<close> that the chain reads.\<close>

record Config =
  SECONDS_PER_SLOT :: nat
  SLOTS_PER_EPOCH :: nat

text \<open>
  Modelled from the spec: the constant \<^verbatim>\<open>GENESIS_SLOT\<close> of \<^verbatim>\<open>../constants\<close> is not
  part of the sources; the genesis state of the spec is at slot 0.
\<close>

definition GENESIS_SLOT :: nat where
  "GENESIS_SLOT = 0"

text \<open>
  Modelled from the spec: \<^verbatim>\<open>computeEpochOfSlot\<close> of \<^verbatim>\<open>./stateTransition/util\<close> is not
  part of the sources. The spec defines the epoch of a slot as the slot divided by
  \<^verbatim>\<open>SLOTS_PER_EPOCH\<close>.
\<close>

definition computeEpochOfSlot :: "Config \<Rightarrow> nat \<Rightarrow> nat" where
  "computeEpochOfSlot config s = s div SLOTS_PER_EPOCH config"

subsection \<open>Fork choice\<close>

text \<open>
  The class \<^verbatim>\<open>StatefulDagLMDGHOST\<close> is not part of the sources. The chain only calls
  its methods, so the fork choice is modelled by what it was told: the arguments of the
  calls of \<^verbatim>\<open>addBlock\<close> and \<^verbatim>\<open>addAttestation\<close>, in order, and the last roots given to
  \<^verbatim>\<open>setJustified\<close> and \<^verbatim>\<open>setFinalized\<close>. A weight of \<open>None\<close> is the JavaScript value
  \<^verbatim>\<open>undefined\<close>. The head that the fork choice computes is a parameter.
\<close>

record ForkChoice =
  fc_blocks :: "(nat \<times> Hash \<times> Hash) list"
  fc_attestations :: "(Hash \<times> nat \<times> nat option) list"
  fc_justified :: "Hash option"
  fc_finalized :: "Hash option"

definition addBlock :: "nat \<Rightarrow> Hash \<Rightarrow> Hash \<Rightarrow> ForkChoice \<Rightarrow> ForkChoice" where
  "addBlock s blockRoot parent fc = fc\<lparr>fc_blocks := fc_blocks fc @ [(s, blockRoot, parent)]\<rparr>"

definition addAttestation :: "Hash \<Rightarrow> nat \<Rightarrow> nat option \<Rightarrow> ForkChoice \<Rightarrow> ForkChoice" where
  "addAttestation blockRoot validator weight fc =
     fc\<lparr>fc_attestations := fc_attestations fc @ [(blockRoot, validator, weight)]\<rparr>"

definition setJustified :: "Hash \<Rightarrow> ForkChoice \<Rightarrow> ForkChoice" where
  "setJustified blockRoot fc = fc\<lparr>fc_justified := Some blockRoot\<rparr>"

definition setFinalized :: "Hash \<Rightarrow> ForkChoice \<Rightarrow> ForkChoice" where
  "setFinalized blockRoot fc = fc\<lparr>fc_finalized := Some blockRoot\<rparr>"

subsection \<open>Persistent store\<close>

text \<open>
  Modelled from the spec: the class behind \<^verbatim>\<open>IBeaconDb\<close> is not part of the sources. The
  spec gives its contract: a typed key/value store with the key spaces
  \<^verbatim>\<open>block/<root>\<close>, \<^verbatim>\<open>state/<root>\<close>, \<^verbatim>\<open>checkpoint/{justified,finalized}\<close>,
  \<^verbatim>\<open>head\<close> and \<^verbatim>\<open>badblock/<root>\<close>. Each setter stores its arguments under its
  own key, each getter returns what is stored there, or \<^verbatim>\<open>null\<close> (\<open>None\<close>). An
  optional argument that the caller leaves out, or a state that the caller read as
  \<^verbatim>\<open>null\<close>, is \<open>None\<close>. The deposit Merkle tree (\<^verbatim>\<open>ProgressiveMerkleTree\<close>) is the
  list of the leaves added to it.
\<close>

type_synonym MerkleTree = "(nat \<times> Hash) list"

record BeaconDb =
  blocks :: "Hash \<rightharpoonup> BeaconBlock"
  states :: "Hash \<rightharpoonup> BeaconState"
  chainHeadRoots :: "(Hash \<times> Hash \<times> BeaconBlock option \<times> BeaconState option) option"
  latestStateRoot :: "(Hash \<times> BeaconState) option"
  justifiedBlockRoot :: "(Hash \<times> BeaconBlock) option"
  justifiedStateRoot :: "(Hash \<times> BeaconState option) option"
  finalizedBlockRoot :: "(Hash \<times> BeaconBlock) option"
  finalizedStateRoot :: "(Hash \<times> BeaconState option) option"
  badBlockRoots :: "Hash set"
  merkleTrees :: "int \<rightharpoonup> MerkleTree"
  deposits :: "Deposit list"

definition hasBlock :: "Hash \<Rightarrow> BeaconDb \<Rightarrow> bool" where
  "hasBlock r d = (blocks d r \<noteq> None)"

definition getBlock :: "Hash \<Rightarrow> BeaconDb \<Rightarrow> BeaconBlock option" where
  "getBlock r d = blocks d r"

definition getState :: "Hash \<Rightarrow> BeaconDb \<Rightarrow> BeaconState option" where
  "getState r d = states d r"

definition getChainHeadRoot :: "BeaconDb \<Rightarrow> Hash option" where
  "getChainHeadRoot d = map_option fst (chainHeadRoots d)"

definition setBlock :: "Hash \<Rightarrow> BeaconBlock \<Rightarrow> BeaconDb \<Rightarrow> BeaconDb" where
  "setBlock r b d = d\<lparr>blocks := (blocks d)(r \<mapsto> b)\<rparr>"

definition setState :: "Hash \<Rightarrow> BeaconState \<Rightarrow> BeaconDb \<Rightarrow> BeaconDb" where
  "setState r st d = d\<lparr>states := (states d)(r \<mapsto> st)\<rparr>"

definition setChainHeadRoots ::
  "Hash \<Rightarrow> Hash \<Rightarrow> BeaconBlock option \<Rightarrow> BeaconState option \<Rightarrow> BeaconDb \<Rightarrow> BeaconDb" where
  "setChainHeadRoots blockRoot stRoot b st d =
     d\<lparr>chainHeadRoots := Some (blockRoot, stRoot, b, st)\<rparr>"

definition setLatestStateRoot :: "Hash \<Rightarrow> BeaconState \<Rightarrow> BeaconDb \<Rightarrow> BeaconDb" where
  "setLatestStateRoot r st d = d\<lparr>latestStateRoot := Some (r, st)\<rparr>"

definition setJustifiedBlockRoot :: "Hash \<Rightarrow> BeaconBlock \<Rightarrow> BeaconDb \<Rightarrow> BeaconDb" where
  "setJustifiedBlockRoot r b d = d\<lparr>justifiedBlockRoot := Some (r, b)\<rparr>"

definition setJustifiedStateRoot :: "Hash \<Rightarrow> BeaconState option \<Rightarrow> BeaconDb \<Rightarrow> BeaconDb" where
  "setJustifiedStateRoot r st d = d\<lparr>justifiedStateRoot := Some (r, st)\<rparr>"

definition setFinalizedBlockRoot :: "Hash \<Rightarrow> BeaconBlock \<Rightarrow> BeaconDb \<Rightarrow> BeaconDb" where
  "setFinalizedBlockRoot r b d = d\<lparr>finalizedBlockRoot := Some (r, b)\<rparr>"

definition setFinalizedStateRoot :: "Hash \<Rightarrow> BeaconState option \<Rightarrow> BeaconDb \<Rightarrow> BeaconDb" where
  "setFinalizedStateRoot r st d = d\<lparr>finalizedStateRoot := Some (r, st)\<rparr>"

definition setBadBlockRoot :: "Hash \<Rightarrow> BeaconDb \<Rightarrow> BeaconDb" where
  "setBadBlockRoot r d = d\<lparr>badBlockRoots := insert r (badBlockRoots d)\<rparr>"

definition getMerkleTree :: "int \<Rightarrow> BeaconDb \<Rightarrow> MerkleTree option" where
  "getMerkleTree i d = merkleTrees d i"

definition setMerkleTree :: "int \<Rightarrow> MerkleTree \<Rightarrow> BeaconDb \<Rightarrow> BeaconDb" where
  "setMerkleTree i t d = d\<lparr>merkleTrees := (merkleTrees d)(i \<mapsto> t)\<rparr>"

subsection \<open>The chain object and the functions it imports\<close>

text \<open>
  The functions that the class imports and that are not part of the sources are the
  fields of one record: \<^verbatim>\<open>hashTreeRoot\<close> at the three types it is used at,
  \<^verbatim>\<open>stateTransition\<close> and \<^verbatim>\<open>getAttestingIndices\<close> (the result of each is \<open>Inl\<close>
  of the message of the exception it throws, or \<open>Inr\<close> of the value it returns; the
  state given to \<^verbatim>\<open>getAttestingIndices\<close> is \<^verbatim>\<open>this.latestState\<close>, which may be
  \<^verbatim>\<open>null\<close>), \<^verbatim>\<open>getEmptyBlock\<close>, the method \<^verbatim>\<open>head\<close> of the fork choice, and
  \<^verbatim>\<open>processSortedDeposits\<close>, given as the list of the deposits that it passes to its
  callback, in order.
\<close>

record Deps =
  hashTreeRootBlock :: "BeaconBlock \<Rightarrow> Hash"
  hashTreeRootState :: "BeaconState \<Rightarrow> Hash"
  hashTreeRootDepositData :: "8 word list \<Rightarrow> Hash"
  stateTransition :: "Config \<Rightarrow> BeaconState \<Rightarrow> BeaconBlock \<Rightarrow> bool \<Rightarrow> string + BeaconState"
  getAttestingIndices ::
    "Config \<Rightarrow> BeaconState option \<Rightarrow> AttestationData \<Rightarrow> bool list \<Rightarrow> string + nat list"
  getEmptyBlock :: BeaconBlock
  head :: "ForkChoice \<Rightarrow> Hash"
  processSortedDeposits :: "Config \<Rightarrow> Deposit list \<Rightarrow> nat \<Rightarrow> nat \<Rightarrow> Deposit list"

text \<open>The two events that the chain emits, \<^verbatim>\<open>processedAttestation\<close> and \<^verbatim>\<open>processedBlock\<close>.\<close>

datatype Event = ProcessedAttestation Attestation | ProcessedBlock BeaconBlock

text \<open>
  The exceptions that leave a method of the chain: a failed \<^verbatim>\<open>assert\<close>, the
  \<^verbatim>\<open>TypeError\<close> of reading a property of \<^verbatim>\<open>null\<close>, and an exception thrown by an
  imported function that the method does not catch, with its message.
\<close>

datatype error = AssertionError | TypeError | Thrown string

text \<open>
  The state of a \<^verbatim>\<open>BeaconChain\<close> object with its collaborators: the latest state
  (\<^verbatim>\<open>null\<close> until the chain is initialised), the fork choice, the store, the blocks
  handed to \<^verbatim>\<open>opPool.processBlockOperations\<close>, the events emitted and the warnings
  logged (block root and message), each in order.
\<close>

record BeaconChain =
  latestState :: "BeaconState option"
  forkChoice :: ForkChoice
  db :: BeaconDb
  opPool :: "BeaconBlock list"
  emitted :: "Event list"
  warnings :: "(Hash \<times> string) list"

section \<open>Beacon chain: operations\<close>

subsection \<open>The constructor\<close>

text \<open>
  The chain as the constructor leaves it: no latest state, a new fork choice, nothing
  emitted; the store given to the constructor is here an empty one.
\<close>

definition emptyDb :: BeaconDb where
  "emptyDb = \<lparr>blocks = Map.empty, states = Map.empty, chainHeadRoots = None,
     latestStateRoot = None, justifiedBlockRoot = None, justifiedStateRoot = None,
     finalizedBlockRoot = None, finalizedStateRoot = None, badBlockRoots = {},
     merkleTrees = Map.empty, deposits = []\<rparr>"

definition newBeaconChain :: BeaconChain where
  "newBeaconChain = \<lparr>latestState = None,
     forkChoice = \<lparr>fc_blocks = [], fc_attestations = [], fc_justified = None,
                   fc_finalized = None\<rparr>,
     db = emptyDb, opPool = [], emitted = [], warnings = []\<rparr>"

subsection \<open>assembleAttestation\<close>

text \<open>
  \<^verbatim>\<open>state.slot++\<close>. A slot is a JavaScript number that holds a non-negative
  integer, and the sum is rounded to a double.
\<close>

definition incrementSlot :: "nat \<Rightarrow> nat" where
  "incrementSlot n = nat (roundDouble (int n + 1))"

text \<open>
  The loop \<^verbatim>\<open>while (state.slot < slot) state.slot++\<close>. It is defined as a partial
  function, so that a run that does not end has no result.
\<close>

partial_function (option) advanceSlot :: "BeaconState \<Rightarrow> nat \<Rightarrow> BeaconState option" where
  "advanceSlot state s =
     (if slot state < s then advanceSlot (state\<lparr>slot := incrementSlot (slot state)\<rparr>) s
      else Some state)"

text \<open>
  \<^verbatim>\<open>assembleAttestation(config, db, state, headBlock, slot, shard)\<close>. The function
  \<^verbatim>\<open>assembleAttestationData\<close> of \<^verbatim>\<open>./data\<close> is not part of the sources and is a
  parameter. It is given the state object itself: its result is \<open>None\<close> when it does
  not return, and else the state as it leaves it, with \<open>Inl\<close> of the message of the
  exception it throws or \<open>Inr\<close> of the data it returns. The result of
  \<^verbatim>\<open>assembleAttestation\<close> is \<open>None\<close> when the call does not return, and else the
  state after the call with the exception thrown or the attestation returned.
\<close>

definition assembleAttestation ::
  "(Config \<Rightarrow> BeaconDb \<Rightarrow> BeaconState \<Rightarrow> BeaconBlock \<Rightarrow> nat \<Rightarrow>
      (BeaconState \<times> (string + AttestationData)) option) \<Rightarrow>
   Config \<Rightarrow> BeaconDb \<Rightarrow> BeaconState \<Rightarrow> BeaconBlock \<Rightarrow> nat \<Rightarrow> nat \<Rightarrow>
   (BeaconState \<times> (string + IndexedAttestation)) option" where
  "assembleAttestation assembleAttestationData config d state headBlock s shard =
     (case advanceSlot state s of
        None \<Rightarrow> None
      | Some state1 \<Rightarrow>
          (case assembleAttestationData config d state1 headBlock shard of
             None \<Rightarrow> None
           | Some (state2, Inl message) \<Rightarrow> Some (state2, Inl message)
           | Some (state2, Inr attestationData) \<Rightarrow>
               Some (state2,
                     Inr \<lparr>custodyBit0Indices = [],
                          custodyBit1Indices = [],
                          indexed_data = attestationData,
                          indexed_signature = None\<rparr>)))"

subsection \<open>receiveAttestation\<close>

text \<open>
  The loop over \<^verbatim>\<open>validators\<close>, with the array \<^verbatim>\<open>balances\<close> read at the same index;
  an index beyond the end of \<^verbatim>\<open>balances\<close> reads \<^verbatim>\<open>undefined\<close>.
\<close>

fun addAttestations :: "Hash \<Rightarrow> nat list \<Rightarrow> nat option list \<Rightarrow> ForkChoice \<Rightarrow> ForkChoice" where
  "addAttestations r [] bs fc = fc"
| "addAttestations r (v # vs) [] fc = addAttestations r vs [] (addAttestation r v None fc)"
| "addAttestations r (v # vs) (b # bs) fc = addAttestations r vs bs (addAttestation r v b fc)"

text \<open>\<^verbatim>\<open>this.latestState.balances[index]\<close>: \<^verbatim>\<open>undefined\<close> beyond the end of the array.\<close>

definition balanceAt :: "BeaconState \<Rightarrow> nat \<Rightarrow> nat option" where
  "balanceAt state index =
     (if index < length (balances state) then Some (balances state ! index) else None)"

text \<open>
  \<^verbatim>\<open>receiveAttestation(attestation)\<close>. Each operation of the chain yields the chain
  after the call and either the exception thrown or the value returned. An exception
  of \<^verbatim>\<open>getAttestingIndices\<close> is not caught. With no latest state,
  \<^verbatim>\<open>this.latestState.balances\<close> throws in the callback of \<^verbatim>\<open>map\<close>, which runs
  once for each index returned, and not at all when no index is returned.
\<close>

definition receiveAttestation ::
  "Deps \<Rightarrow> Config \<Rightarrow> Attestation \<Rightarrow> BeaconChain \<Rightarrow> BeaconChain \<times> (error + unit)" where
  "receiveAttestation deps config attestation chain =
     (case getAttestingIndices deps config (latestState chain) (data attestation)
             (aggregationBits attestation) of
        Inl message \<Rightarrow> (chain, Inl (Thrown message))
      | Inr vs \<Rightarrow>
          (case latestState chain of
             None \<Rightarrow>
               if vs = [] then
                 (chain\<lparr>emitted := emitted chain @ [ProcessedAttestation attestation]\<rparr>,
                  Inr ())
               else (chain, Inl TypeError)
           | Some state \<Rightarrow>
               (let bs = map (balanceAt state) vs;
                    fc = addAttestations (beaconBlockRoot (data attestation)) vs bs
                           (forkChoice chain)
                in (chain\<lparr>forkChoice := fc,
                           emitted := emitted chain @ [ProcessedAttestation attestation]\<rparr>,
                    Inr ()))))"

subsection \<open>applyForkChoiceRule\<close>

definition applyForkChoiceRule :: "Deps \<Rightarrow> BeaconChain \<Rightarrow> BeaconChain \<times> (error + unit)" where
  "applyForkChoiceRule deps chain =
     (case getChainHeadRoot (db chain) of
        None \<Rightarrow> (chain, Inl TypeError)
      | Some currentRoot \<Rightarrow>
          (let headRoot = head deps (forkChoice chain)
           in if currentRoot \<noteq> headRoot then
                (case getBlock headRoot (db chain) of
                   None \<Rightarrow> (chain, Inl TypeError)
                 | Some block \<Rightarrow>
                     (chain\<lparr>db := setChainHeadRoots currentRoot (stateRoot block)
                                     (Some block) None (db chain)\<rparr>,
                      Inr ()))
              else (chain, Inr ())))"

subsection \<open>initializeBeaconChain\<close>

definition initializeBeaconChain ::
  "Deps \<Rightarrow> BeaconState \<Rightarrow> MerkleTree \<Rightarrow> BeaconChain \<Rightarrow> BeaconChain" where
  "initializeBeaconChain deps genesisState merkleTree chain =
     (let stRoot = hashTreeRootState deps genesisState;
          genesisBlock = (getEmptyBlock deps)\<lparr>stateRoot := stRoot\<rparr>;
          blockRoot = hashTreeRootBlock deps genesisBlock;
          d1 = setState stRoot genesisState (setBlock blockRoot genesisBlock (db chain));
          d2 = setChainHeadRoots blockRoot stRoot (Some genesisBlock) (Some genesisState) d1;
          d3 = setJustifiedBlockRoot blockRoot genesisBlock d2;
          d4 = setFinalizedBlockRoot blockRoot genesisBlock d3;
          d5 = setLatestStateRoot stRoot genesisState d4;
          d6 = setJustifiedStateRoot stRoot (Some genesisState) d5;
          d7 = setFinalizedStateRoot stRoot (Some genesisState) d6;
          d8 = setMerkleTree (int (eth1DepositIndex genesisState)) merkleTree d7;
          fc = setFinalized blockRoot (setJustified blockRoot
                 (addBlock (block_slot genesisBlock) blockRoot (replicate 32 0)
                    (forkChoice chain)))
      in chain\<lparr>latestState := Some genesisState, db := d8, forkChoice := fc\<rparr>)"

subsection \<open>isValidBlock\<close>

text \<open>
  \<^verbatim>\<open>isValidBlock(state, block)\<close>; \<open>now\<close> is \<^verbatim>\<open>Math.floor(Date.now() / 1000)\<close>. The
  state is read only after the parent has been found.
\<close>

definition isValidBlock ::
  "Config \<Rightarrow> int \<Rightarrow> BeaconChain \<Rightarrow> BeaconState option \<Rightarrow> BeaconBlock \<Rightarrow> error + bool" where
  "isValidBlock config now chain state block =
     (let hasParent = hasBlock (parentRoot block) (db chain)
      in if \<not> hasParent then Inr False
         else
           (case state of
              None \<Rightarrow> Inl TypeError
            | Some st \<Rightarrow>
                (let stateSlotTime =
                       int (genesisTime st)
                       + (int (block_slot block) - int GENESIS_SLOT) * int (SECONDS_PER_SLOT config)
                 in if now < stateSlotTime then Inr False else Inr True)))"

subsection \<open>runStateTransition\<close>

text \<open>
  \<^verbatim>\<open>updateDepositMerkleTree(newState)\<close>. The caller does not await it, so an exception
  in it does not reach the caller; it writes to the Merkle tree keys only. With no tree
  stored at the index read, the callback throws on the first deposit; the store is then
  left as it is, as it is when the tree read is \<^verbatim>\<open>null\<close> and there is no deposit to add.
\<close>

fun addLeaves :: "Deps \<Rightarrow> nat \<Rightarrow> nat \<Rightarrow> Deposit list \<Rightarrow> MerkleTree \<Rightarrow> MerkleTree" where
  "addLeaves deps base index [] tree = tree"
| "addLeaves deps base index (deposit # ds) tree =
     addLeaves deps base (index + 1) ds
       (tree @ [(index + base, hashTreeRootDepositData deps (deposit_data deposit))])"

definition updateDepositMerkleTree :: "Deps \<Rightarrow> Config \<Rightarrow> BeaconState \<Rightarrow> BeaconDb \<Rightarrow> BeaconDb" where
  "updateDepositMerkleTree deps config newState d =
     (case getMerkleTree (int (eth1DepositIndex newState)
                          - int (depositCount (eth1Data newState))) d of
        None \<Rightarrow> d
      | Some merkleTree \<Rightarrow>
          setMerkleTree (int (eth1DepositIndex newState))
            (addLeaves deps (eth1DepositIndex newState) 0
               (processSortedDeposits deps config (deposits d) (eth1DepositIndex newState)
                  (depositCount (eth1Data newState)))
               merkleTree)
            d)"

text \<open>
  The first writes of \<^verbatim>\<open>runStateTransition\<close> after a successful transition: the
  block and the new state are stored by two calls of the store, the block is added to
  the fork choice and the update of the deposit tree is started.
\<close>

definition persistBlock ::
  "Deps \<Rightarrow> Config \<Rightarrow> BeaconBlock \<Rightarrow> Hash \<Rightarrow> BeaconState \<Rightarrow> BeaconChain \<Rightarrow> BeaconChain" where
  "persistBlock deps config block blockRoot newState chain =
     (let d1 = setState (stateRoot block) newState (setBlock blockRoot block (db chain));
          fc1 = addBlock (block_slot block) blockRoot (parentRoot block) (forkChoice chain);
          d2 = updateDepositMerkleTree deps config newState d1
      in chain\<lparr>db := d2, forkChoice := fc1\<rparr>)"

text \<open>
  The statement under \<^verbatim>\<open>Newly justified epoch\<close> of \<^verbatim>\<open>runStateTransition\<close>.
  Reading \<^verbatim>\<open>justifiedBlock.stateRoot\<close> throws when the store has no block at the
  root of the checkpoint, before anything is written.
\<close>

definition newlyJustified ::
  "nat \<Rightarrow> BeaconBlock \<Rightarrow> Hash \<Rightarrow> BeaconState \<Rightarrow> BeaconChain \<Rightarrow> BeaconChain \<times> (error + unit)" where
  "newlyJustified preJustifiedEpoch block blockRoot newState chain =
     (if preJustifiedEpoch < epoch (currentJustifiedCheckpoint newState) then
        (case getBlock (root (currentJustifiedCheckpoint newState)) (db chain) of
           None \<Rightarrow> (chain, Inl TypeError)
         | Some justifiedBlock \<Rightarrow>
             (let justifiedState = getState (stateRoot justifiedBlock) (db chain);
                  d1 = setJustifiedBlockRoot blockRoot block (db chain);
                  d2 = setJustifiedStateRoot (stateRoot justifiedBlock) justifiedState d1
              in (chain\<lparr>db := d2, forkChoice := setJustified blockRoot (forkChoice chain)\<rparr>,
                  Inr ())))
      else (chain, Inr ()))"

text \<open>The statement under \<^verbatim>\<open>Newly finalized epoch\<close>.\<close>

definition newlyFinalized ::
  "nat \<Rightarrow> BeaconBlock \<Rightarrow> Hash \<Rightarrow> BeaconState \<Rightarrow> BeaconChain \<Rightarrow> BeaconChain \<times> (error + unit)" where
  "newlyFinalized preFinalizedEpoch block blockRoot newState chain =
     (if preFinalizedEpoch < epoch (finalizedCheckpoint newState) then
        (case getBlock (root (finalizedCheckpoint newState)) (db chain) of
           None \<Rightarrow> (chain, Inl TypeError)
         | Some finalizedBlock \<Rightarrow>
             (let finalizedState = getState (stateRoot finalizedBlock) (db chain);
                  d1 = setFinalizedBlockRoot blockRoot block (db chain);
                  d2 = setFinalizedStateRoot (stateRoot finalizedBlock) finalizedState d1
              in (chain\<lparr>db := d2, forkChoice := setFinalized blockRoot (forkChoice chain)\<rparr>,
                  Inr ())))
      else (chain, Inr ()))"

text \<open>
  The part of \<^verbatim>\<open>runStateTransition\<close> after a successful transition, from the comment
  \<^verbatim>\<open>On successful transition, update system state\<close> on. An exception ends the run
  with the chain as it is at that point.
\<close>

definition updateSystemState ::
  "Deps \<Rightarrow> Config \<Rightarrow> BeaconBlock \<Rightarrow> nat \<Rightarrow> nat \<Rightarrow> nat \<Rightarrow> BeaconState \<Rightarrow> BeaconChain \<Rightarrow>
   BeaconChain \<times> (error + BeaconState option)" where
  "updateSystemState deps config block preSlot preFinalizedEpoch preJustifiedEpoch newState chain =
     (let blockRoot = hashTreeRootBlock deps block;
          chain1 = persistBlock deps config block blockRoot newState chain
      in if computeEpochOfSlot config preSlot < computeEpochOfSlot config (slot newState) then
           (case newlyJustified preJustifiedEpoch block blockRoot newState chain1 of
              (chain2, Inl e) \<Rightarrow> (chain2, Inl e)
            | (chain2, Inr _) \<Rightarrow>
                (case newlyFinalized preFinalizedEpoch block blockRoot newState chain2 of
                   (chain3, Inl e) \<Rightarrow> (chain3, Inl e)
                 | (chain3, Inr _) \<Rightarrow> (chain3, Inr (Some newState))))
         else (chain1, Inr (Some newState)))"

text \<open>
  \<^verbatim>\<open>runStateTransition(block, state)\<close>. The value returned is \<open>None\<close>
  (\<^verbatim>\<open>undefined\<close>) when the transition threw and the block root was stored as bad.
\<close>

definition runStateTransition ::
  "Deps \<Rightarrow> Config \<Rightarrow> BeaconBlock \<Rightarrow> BeaconState option \<Rightarrow> BeaconChain \<Rightarrow>
   BeaconChain \<times> (error + BeaconState option)" where
  "runStateTransition deps config block state chain =
     (case state of
        None \<Rightarrow> (chain, Inl TypeError)
      | Some st \<Rightarrow>
          (let preSlot = slot st;
               preFinalizedEpoch = epoch (finalizedCheckpoint st);
               preJustifiedEpoch = epoch (currentJustifiedCheckpoint st)
           in case stateTransition deps config st block True of
                Inl message \<Rightarrow>
                  (let blockRoot = hashTreeRootBlock deps block
                   in (chain\<lparr>db := setBadBlockRoot blockRoot (db chain),
                              warnings := warnings chain @ [(blockRoot, message)]\<rparr>,
                       Inr None))
              | Inr newState \<Rightarrow>
                  updateSystemState deps config block preSlot preFinalizedEpoch
                    preJustifiedEpoch newState chain))"

subsection \<open>receiveBlock\<close>

definition receiveBlock ::
  "Deps \<Rightarrow> Config \<Rightarrow> int \<Rightarrow> BeaconBlock \<Rightarrow> BeaconChain \<Rightarrow> BeaconChain \<times> (error + unit)" where
  "receiveBlock deps config now block chain =
     (case isValidBlock config now chain (latestState chain) block of
        Inl e \<Rightarrow> (chain, Inl e)
      | Inr valid \<Rightarrow>
          if \<not> valid then (chain, Inl AssertionError)
          else
            (case runStateTransition deps config block (latestState chain) chain of
               (chain1, Inl e) \<Rightarrow> (chain1, Inl e)
             | (chain1, Inr _) \<Rightarrow>
                 (chain1\<lparr>opPool := opPool chain1 @ [block],
                         emitted := emitted chain1 @ [ProcessedBlock block]\<rparr>,
                  Inr ())))"

section \<open>The chains that can be reached\<close>





section \<open>Example data\<close>

text \<open>
  Concrete collaborators: a block is hashed to its \<open>body\<close>, and a state to its slot.
  The transition accepts the blocks with bodies 4 and 5, accepts the blocks with bodies
  3 and 6 when the state given has more than two validators, which it then returns at
  the slot of the block, and throws on every other call. The committee of every
  attestation is the validators 0 and 1, and the head of the fork choice is the block
  added last.
\<close>

definition exConfig :: Config where
  "exConfig = \<lparr>SECONDS_PER_SLOT = 6, SLOTS_PER_EPOCH = 8\<rparr>"

definition exState :: "nat \<Rightarrow> nat \<Rightarrow> nat \<Rightarrow> Hash \<Rightarrow> BeaconState" where
  "exState s justifiedEpoch finalizedEpoch r =
     \<lparr>slot = s, genesisTime = 1000,
      validators = [\<lparr>effectiveBalance = 32\<rparr>, \<lparr>effectiveBalance = 32\<rparr>],
      balances = [33, 31],
      currentJustifiedCheckpoint = \<lparr>epoch = justifiedEpoch, root = r\<rparr>,
      finalizedCheckpoint = \<lparr>epoch = finalizedEpoch, root = r\<rparr>,
      eth1DepositIndex = 0, eth1Data = \<lparr>depositCount = 0\<rparr>\<rparr>"

definition exBlock :: "nat \<Rightarrow> nat \<Rightarrow> Hash \<Rightarrow> Hash \<Rightarrow> BeaconBlock" where
  "exBlock b s parent stRoot =
     \<lparr>block_slot = s, parentRoot = parent, stateRoot = stRoot, body = b\<rparr>"

definition exDeps :: Deps where
  "exDeps = \<lparr>
     hashTreeRootBlock = (\<lambda>b. [of_nat (body b)]),
     hashTreeRootState = (\<lambda>st. [of_nat (slot st), 255]),
     hashTreeRootDepositData = (\<lambda>d. d),
     stateTransition = (\<lambda>config st b validate.
        if body b = 4 then Inr (exState 1 0 0 [0])
        else if body b = 5 then Inr (exState 8 1 0 [77])
        else if (body b = 3 \<or> body b = 6) \<and> 2 < length (validators st)
          then Inr (st\<lparr>slot := block_slot b\<rparr>)
        else Inl ''invalid block''),
     getAttestingIndices = (\<lambda>config st d bits. Inr (map fst (filter snd (zip [0, 1] bits)))),
     getEmptyBlock = exBlock 0 0 [] [],
     head = (\<lambda>fc. case fc_blocks fc of [] \<Rightarrow> [] | _ \<Rightarrow> fst (snd (last (fc_blocks fc)))),
     processSortedDeposits = (\<lambda>config ds i n. ds)\<rparr>"

definition exChain :: BeaconChain where
  "exChain = initializeBeaconChain exDeps (exState 0 0 0 []) [] newBeaconChain"




section \<open>Properties of rewards and penalties\<close>

lemma bitLength_numeral:
  "bitLength 0 = 0"
  "bitLength (Suc 0) = 1"
  "bitLength 1 = 1"
  "bitLength (numeral Num.One) = 1"
  "bitLength (numeral (Num.Bit0 n)) = Suc (bitLength (numeral n))"
  "bitLength (numeral (Num.Bit1 n)) = Suc (bitLength (numeral n))"
proof -
  show "bitLength 0 = 0" by (subst bitLength.simps) simp
  show s: "bitLength (Suc 0) = 1" by (subst bitLength.simps) (simp add: bitLength.simps [of 0])
  then show "bitLength 1 = 1" by simp
  from s show "bitLength (numeral Num.One) = 1" by simp
  show "bitLength (numeral (Num.Bit0 n)) = Suc (bitLength (numeral n))"
    by (subst bitLength.simps) simp
  have "numeral (Num.Bit1 n) div (2::nat) = numeral n"
    by simp
  then show "bitLength (numeral (Num.Bit1 n)) = Suc (bitLength (numeral n))"
    by (subst bitLength.simps) simp
qed

lemma fromInteger_exact: "\<bar>x\<bar> \<le> 2 ^ 53 \<Longrightarrow> fromInteger x = Num x"
proof -
  assume a: "\<bar>x\<bar> \<le> 2 ^ 53"
  have "(2::int) ^ 53 < 2 ^ 1024"
    by (rule power_strict_increasing) simp_all
  with a have "x < 2 ^ 1024" "- (2 ^ 1024) < x"
    by linarith+
  with a show ?thesis
    by (simp add: fromInteger_def roundDouble_def)
qed


text \<open>One pass of the loop on integer amounts whose sums are doubles.\<close>

lemma applyDeltas_result:
  assumes "len \<le> length bals" "len \<le> length rs" "len \<le> length ps"
    and "\<forall>k. i \<le> k \<and> k < len \<longrightarrow>
           \<bar>bals ! k + rs ! k\<bar> \<le> 2 ^ 53 \<and>
           \<bar>ps ! k + (if k < length sp then sp ! k else 0)\<bar> \<le> 2 ^ 53 \<and>
           \<bar>bals ! k + rs ! k - (ps ! k + (if k < length sp then sp ! k else 0))\<bar> \<le> 2 ^ 53"
  shows "\<exists>new. applyDeltas i len (map Num rs) (map Num ps) (map Num sp) (map Num bals) =
                 map Num new \<and>
               length new = length bals \<and>
               (\<forall>k < length new. new ! k =
                  (if i \<le> k \<and> k < len
                   then max 0 (bals ! k + rs ! k
                               - (ps ! k + (if k < length sp then sp ! k else 0)))
                   else bals ! k))"
  using assms
proof (induction "len - i" arbitrary: i bals)
  case 0
  then have "\<not> i < len" by simp
  then show ?case by (subst applyDeltas.simps) (auto intro!: exI [of _ bals])
next
  case (Suc n)
  then have lt: "i < len" by simp
  with Suc.prems have inr: "i < length bals" "i < length rs" "i < length ps"
    by simp_all
  let ?s = "if i < length sp then sp ! i else 0"
  let ?v = "max 0 (bals ! i + rs ! i - (ps ! i + ?s))"
  let ?bals = "bals[i := ?v]"
  from Suc.prems(4) lt have exact:
    "\<bar>bals ! i + rs ! i\<bar> \<le> 2 ^ 53" "\<bar>ps ! i + ?s\<bar> \<le> 2 ^ 53"
    "\<bar>bals ! i + rs ! i - (ps ! i + ?s)\<bar> \<le> 2 ^ 53"
    by auto
  have slash: "nullish (elementAt (map Num sp) i) (Num 0) = Num ?s"
    by (simp add: nullish_def elementAt_def)
  have inc: "increaseBalanceWithVal (elementAt (map Num bals) i) (elementAt (map Num rs) i) =
               Num (bals ! i + rs ! i)"
    using inr exact(1) by (simp add: increaseBalanceWithVal_def elementAt_def fromInteger_exact)
  have pen: "numberPlus (elementAt (map Num ps) i) (nullish (elementAt (map Num sp) i) (Num 0)) =
               Num (ps ! i + ?s)"
    using inr exact(2) by (simp only: slash) (simp add: elementAt_def fromInteger_exact)
  have dec: "decreaseBalanceWithVal (Num (bals ! i + rs ! i)) (Num (ps ! i + ?s)) = Num ?v"
    using exact(3) by (simp add: decreaseBalanceWithVal_def numberMinus_def fromInteger_exact)
  have asg: "assign (map Num bals) i (Num ?v) = map Num ?bals"
    using inr by (simp add: assign_def map_update)
  have step: "applyDeltas i len (map Num rs) (map Num ps) (map Num sp) (map Num bals) =
              applyDeltas (i + 1) len (map Num rs) (map Num ps) (map Num sp) (map Num ?bals)"
    using lt by (subst applyDeltas.simps) (simp only: inc pen dec asg Let_def if_True)
  have n: "n = len - (i + 1)" using Suc.hyps(2) by simp
  have later: "\<forall>k. i + 1 \<le> k \<and> k < len \<longrightarrow>
           \<bar>?bals ! k + rs ! k\<bar> \<le> 2 ^ 53 \<and>
           \<bar>ps ! k + (if k < length sp then sp ! k else 0)\<bar> \<le> 2 ^ 53 \<and>
           \<bar>?bals ! k + rs ! k - (ps ! k + (if k < length sp then sp ! k else 0))\<bar> \<le> 2 ^ 53"
    using Suc.prems(4) by auto
  from Suc.hyps(1) [OF n _ Suc.prems(2) Suc.prems(3) later] Suc.prems(1)
  obtain new where
    run: "applyDeltas (i + 1) len (map Num rs) (map Num ps) (map Num sp) (map Num ?bals) =
            map Num new" and
    len: "length new = length bals" and
    val: "\<forall>k < length new. new ! k =
            (if i + 1 \<le> k \<and> k < len
             then max 0 (?bals ! k + rs ! k - (ps ! k + (if k < length sp then sp ! k else 0)))
             else ?bals ! k)"
    by auto
  have "\<forall>k < length new. new ! k =
          (if i \<le> k \<and> k < len
           then max 0 (bals ! k + rs ! k - (ps ! k + (if k < length sp then sp ! k else 0)))
           else bals ! k)"
  proof (intro allI impI)
    fix k assume k: "k < length new"
    show "new ! k =
          (if i \<le> k \<and> k < len
           then max 0 (bals ! k + rs ! k - (ps ! k + (if k < length sp then sp ! k else 0)))
           else bals ! k)"
    proof (cases "k = i")
      case True
      with val k len inr lt show ?thesis by simp
    next
      case False
      with val k len show ?thesis by auto
    qed
  qed
  with step run len show ?case by auto
qed

text \<open>
  Claim C2, as amended. Take a current epoch after the genesis epoch, and integer
  amounts: balances, rewards with no more entries than the balances and the penalties,
  and slashing penalties, such that for every index of the rewards the balance plus the
  reward, the penalty plus the slashing penalty, and their difference are doubles (at
  most \<open>2 ^ 53\<close> in absolute value). Then every balance with an entry in the rewards
  becomes the old balance plus its reward, minus its penalty and its slashing penalty,
  which is \<^verbatim>\<open>slashingPenalties[i]\<close> or 0 when that array has no such entry, cut off at
  zero: it is never negative. The other balances are kept. The new balances are
  committed by one bulk rebuild of the tree, with no mutation of a single leaf, and are
  cached.
\<close>

theorem processRewardsAndPenalties_applies_deltas:
  assumes "GENESIS_EPOCH < currentEpoch cache"
    and "cached_balances state = map Num bals"
    and "getRewardsAndPenalties getForkSeq gad grpa state cache =
           (map Num rs, map Num ps)"
    and "length rs \<le> length bals"
    and "length rs \<le> length ps"
    and "\<forall>i < length rs.
           \<bar>bals ! i + rs ! i\<bar> \<le> 2 ^ 53 \<and>
           \<bar>ps ! i + (if i < length sp then sp ! i else 0)\<bar>
             \<le> 2 ^ 53 \<and>
           \<bar>bals ! i + rs ! i
             - (ps ! i
                + (if i < length sp then sp ! i else 0))\<bar>
             \<le> 2 ^ 53"
  shows "\<exists>new. processRewardsAndPenalties getForkSeq gad grpa state cache
                 (map Num sp) =
               (state\<lparr>cached_balances := map Num new\<rparr>,
                cache\<lparr>cache_balances := Some (map Num new)\<rparr>,
                [GetAll, ToViewDU (map Num new)]) \<and>
           length new = length bals \<and>
           (\<forall>i < length rs. new ! i =
              max 0 (bals ! i + rs ! i
                     - (ps ! i
                        + (if i < length sp then sp ! i else 0)))) \<and>
           (\<forall>i < length rs. 0 \<le> new ! i) \<and>
           (\<forall>i < length new. length rs \<le> i \<longrightarrow> new ! i = bals ! i)"
proof -
  have exact: "\<forall>k. 0 \<le> k \<and> k < length rs \<longrightarrow>
           \<bar>bals ! k + rs ! k\<bar> \<le> 2 ^ 53 \<and>
           \<bar>ps ! k + (if k < length sp then sp ! k else 0)\<bar>
             \<le> 2 ^ 53 \<and>
           \<bar>bals ! k + rs ! k
             - (ps ! k
                + (if k < length sp then sp ! k else 0))\<bar>
             \<le> 2 ^ 53"
    using assms(6) by simp
  from applyDeltas_result [OF assms(4) order_refl assms(5) exact]
  obtain new where
    run: "applyDeltas 0 (length rs) (map Num rs) (map Num ps)
            (map Num sp) (map Num bals) = map Num new" and
    len: "length new = length bals" and
    val: "\<forall>k < length new. new ! k =
            (if 0 \<le> k \<and> k < length rs
             then max 0 (bals ! k + rs ! k
                         - (ps ! k
                            + (if k < length sp then sp ! k else 0)))
             else bals ! k)"
    by blast
  have res: "processRewardsAndPenalties getForkSeq gad grpa state cache
                 (map Num sp) =
               (state\<lparr>cached_balances := map Num new\<rparr>,
                cache\<lparr>cache_balances := Some (map Num new)\<rparr>,
                [GetAll, ToViewDU (map Num new)])"
    using assms(1,2,3) run by (simp add: processRewardsAndPenalties_def Let_def)
  have upd: "\<forall>i < length rs. new ! i =
              max 0 (bals ! i + rs ! i
                     - (ps ! i
                        + (if i < length sp then sp ! i else 0)))"
    using val len assms(4) by auto
  then have nonneg: "\<forall>i < length rs. 0 \<le> new ! i"
    by simp
  have keep: "\<forall>i < length new. length rs \<le> i \<longrightarrow> new ! i = bals ! i"
    using val by auto
  from res len upd nonneg keep show ?thesis by blast
qed

theorem processRewardsAndPenalties_applies_deltas_witness:
  "processRewardsAndPenalties (\<lambda>_. phase0)
     (\<lambda>_ _. ([Num 5, Num 0, Num 1, Num 0], [Num 2, Num 3, Num 1, Num 50])) (\<lambda>_ _. ([], []))
     \<lparr>cached_slot = 8, cached_balances = [Num 10, Num 20, Num 7, Num 3, Num 6]\<rparr>
     \<lparr>currentEpoch = 1, cache_balances = None\<rparr> [Num 4, Num 9] =
   (\<lparr>cached_slot = 8, cached_balances = [Num 9, Num 8, Num 7, Num 0, Num 6]\<rparr>,
    \<lparr>currentEpoch = 1, cache_balances = Some [Num 9, Num 8, Num 7, Num 0, Num 6]\<rparr>,
    [GetAll, ToViewDU [Num 9, Num 8, Num 7, Num 0, Num 6]])"
proof -
  let ?cache = "\<lparr>currentEpoch = 1, cache_balances = None\<rparr>"
  let ?state = "\<lparr>cached_slot = 8, cached_balances = [Num 10, Num 20, Num 7, Num 3, Num 6]\<rparr>"
  let ?gad = "\<lambda>(_ :: CachedBeaconStateAllForks) (_ :: EpochTransitionCache).
                ([Num 5, Num 0, Num 1, Num 0], [Num 2, Num 3, Num 1, Num 50])"
  let ?grpa = "\<lambda>(_ :: CachedBeaconStateAllForks) (_ :: EpochTransitionCache).
                 ([] :: number list, [] :: number list)"
  have h1: "GENESIS_EPOCH < currentEpoch ?cache"
    by (simp add: GENESIS_EPOCH_def)
  have h2: "cached_balances ?state = map Num [10, 20, 7, 3, 6]"
    by simp
  have h3: "getRewardsAndPenalties (\<lambda>_. phase0) ?gad ?grpa ?state ?cache =
              (map Num [5, 0, 1, 0], map Num [2, 3, 1, 50])"
    by (simp add: getRewardsAndPenalties_def)
  have h4: "length [5, 0, 1, 0 :: int] \<le> length [10, 20, 7, 3, 6 :: int]"
    by simp
  have h5: "length [5, 0, 1, 0 :: int] \<le> length [2, 3, 1, 50 :: int]"
    by simp
  have h6: "\<forall>i < length [5, 0, 1, 0 :: int].
           \<bar>[10, 20, 7, 3, 6] ! i + [5, 0, 1, 0] ! i\<bar> \<le> (2 :: int) ^ 53 \<and>
           \<bar>[2, 3, 1, 50] ! i + (if i < length [4, 9 :: int] then [4, 9] ! i else 0)\<bar>
             \<le> (2 :: int) ^ 53 \<and>
           \<bar>[10, 20, 7, 3, 6] ! i + [5, 0, 1, 0] ! i
             - ([2, 3, 1, 50] ! i + (if i < length [4, 9 :: int] then [4, 9] ! i else 0))\<bar>
             \<le> (2 :: int) ^ 53"
    by (simp add: less_Suc_eq nth_Cons')
  from processRewardsAndPenalties_applies_deltas [OF h1 h2 h3 h4 h5 h6]
  obtain new where
    res: "processRewardsAndPenalties (\<lambda>_. phase0) ?gad ?grpa ?state ?cache (map Num [4, 9]) =
            (?state\<lparr>cached_balances := map Num new\<rparr>,
             ?cache\<lparr>cache_balances := Some (map Num new)\<rparr>,
             [GetAll, ToViewDU (map Num new)])" and
    len: "length new = length [10, 20, 7, 3, 6 :: int]" and
    upd: "\<forall>i < length [5, 0, 1, 0 :: int]. new ! i =
            max 0 ([10, 20, 7, 3, 6] ! i + [5, 0, 1, 0] ! i
                   - ([2, 3, 1, 50] ! i + (if i < length [4, 9 :: int] then [4, 9] ! i else 0)))" and
    keep: "\<forall>i < length new. length [5, 0, 1, 0 :: int] \<le> i \<longrightarrow>
             new ! i = [10, 20, 7, 3, 6] ! i"
    by blast
  from upd have "new ! 0 = 9" "new ! 1 = 8" "new ! 2 = 7" "new ! 3 = 0"
    by simp_all
  moreover from keep len have "new ! 4 = 6"
    by simp
  ultimately have "new = [9, 8, 7, 0, 6]"
    using len by (intro nth_equalityI) (auto simp: less_Suc_eq eval_nat_numeral)
  with res show ?thesis by simp
qed

text \<open>
  Claim C2 as stated fails where the amounts leave the integers that doubles hold
  exactly, and where the rewards have more entries than the balances. A balance of
  \<open>2 ^ 53\<close> with a reward of 1 and no penalty stays \<open>2 ^ 53\<close>: the reward is lost.
  With one reward and no balance, the balances committed are one \<^verbatim>\<open>NaN\<close>.
\<close>

theorem processRewardsAndPenalties_reward_lost:
  "processRewardsAndPenalties (\<lambda>_. phase0) (\<lambda>_ _. ([Num 1], [Num 0])) (\<lambda>_ _. ([], []))
     \<lparr>cached_slot = 8, cached_balances = [Num (2 ^ 53)]\<rparr>
     \<lparr>currentEpoch = 1, cache_balances = None\<rparr> [] =
   (\<lparr>cached_slot = 8, cached_balances = [Num (2 ^ 53)]\<rparr>,
    \<lparr>currentEpoch = 1, cache_balances = Some [Num (2 ^ 53)]\<rparr>,
    [GetAll, ToViewDU [Num (2 ^ 53)]]) \<and>
   max 0 (2 ^ 53 + 1 - (0 + 0)) \<noteq> (2 ^ 53 :: int) \<and>
   processRewardsAndPenalties (\<lambda>_. phase0) (\<lambda>_ _. ([Num 5], [Num 0])) (\<lambda>_ _. ([], []))
     \<lparr>cached_slot = 8, cached_balances = []\<rparr>
     \<lparr>currentEpoch = 1, cache_balances = None\<rparr> [] =
   (\<lparr>cached_slot = 8, cached_balances = [NaN]\<rparr>,
    \<lparr>currentEpoch = 1, cache_balances = Some [NaN]\<rparr>,
    [GetAll, ToViewDU [NaN]])"
  by (simp add: processRewardsAndPenalties_def getRewardsAndPenalties_def GENESIS_EPOCH_def
        applyDeltas.simps increaseBalanceWithVal_def decreaseBalanceWithVal_def
        numberMinus_def nullish_def elementAt_def assign_def fromInteger_def roundDouble_def
        bitLength_numeral Let_def)

text \<open>
  Claim C9. When the current epoch is the genesis epoch, the function returns at once:
  the state and the cache are the ones given, and no operation on the balances tree is
  performed.
\<close>

theorem processRewardsAndPenalties_genesis_skip:
  "currentEpoch cache = GENESIS_EPOCH \<Longrightarrow>
   processRewardsAndPenalties getForkSeq gad grpa state cache slashingPenalties =
     (state, cache, [])"
  by (simp add: processRewardsAndPenalties_def)

theorem processRewardsAndPenalties_genesis_skip_witness:
  "currentEpoch \<lparr>currentEpoch = 0, cache_balances = None\<rparr> = GENESIS_EPOCH \<and>
   processRewardsAndPenalties (\<lambda>_. phase0) (\<lambda>_ _. ([Num 5, Num 0], [Num 2, Num 100]))
     (\<lambda>_ _. ([], []))
     \<lparr>cached_slot = 0, cached_balances = [Num 10, Num 20]\<rparr>
     \<lparr>currentEpoch = 0, cache_balances = None\<rparr> [Num 1] =
   (\<lparr>cached_slot = 0, cached_balances = [Num 10, Num 20]\<rparr>,
    \<lparr>currentEpoch = 0, cache_balances = None\<rparr>, [])"
proof -
  have h: "currentEpoch \<lparr>currentEpoch = 0, cache_balances = None\<rparr> = GENESIS_EPOCH"
    by (simp add: GENESIS_EPOCH_def)
  from processRewardsAndPenalties_genesis_skip [OF h] h show ?thesis
    by blast
qed

section \<open>Properties of the beacon chain\<close>

lemmas db_defs = hasBlock_def getBlock_def getState_def getChainHeadRoot_def setBlock_def
  setState_def setChainHeadRoots_def setLatestStateRoot_def setJustifiedBlockRoot_def
  setJustifiedStateRoot_def setFinalizedBlockRoot_def setFinalizedStateRoot_def
  setBadBlockRoot_def getMerkleTree_def setMerkleTree_def

lemmas fc_defs = addBlock_def addAttestation_def setJustified_def setFinalized_def

lemmas ex_defs = exChain_def exDeps_def exBlock_def exState_def exConfig_def
  newBeaconChain_def emptyDb_def initializeBeaconChain_def

lemmas run_defs = receiveBlock_def isValidBlock_def runStateTransition_def
  updateSystemState_def persistBlock_def newlyJustified_def newlyFinalized_def
  updateDepositMerkleTree_def computeEpochOfSlot_def GENESIS_SLOT_def

subsection \<open>What each step of runStateTransition writes\<close>

lemma updateDepositMerkleTree_fields:
  "blocks (updateDepositMerkleTree deps config ns d) = blocks d"
  "states (updateDepositMerkleTree deps config ns d) = states d"
  "badBlockRoots (updateDepositMerkleTree deps config ns d) = badBlockRoots d"
  "chainHeadRoots (updateDepositMerkleTree deps config ns d) = chainHeadRoots d"
  "latestStateRoot (updateDepositMerkleTree deps config ns d) = latestStateRoot d"
  "justifiedBlockRoot (updateDepositMerkleTree deps config ns d) = justifiedBlockRoot d"
  "justifiedStateRoot (updateDepositMerkleTree deps config ns d) = justifiedStateRoot d"
  "finalizedBlockRoot (updateDepositMerkleTree deps config ns d) = finalizedBlockRoot d"
  "finalizedStateRoot (updateDepositMerkleTree deps config ns d) = finalizedStateRoot d"
  "deposits (updateDepositMerkleTree deps config ns d) = deposits d"
  by (simp_all add: updateDepositMerkleTree_def db_defs split: option.splits)

lemma persistBlock_fields:
  "blocks (db (persistBlock deps config block r ns chain)) = (blocks (db chain))(r \<mapsto> block)"
  "states (db (persistBlock deps config block r ns chain)) =
     (states (db chain))(stateRoot block \<mapsto> ns)"
  "badBlockRoots (db (persistBlock deps config block r ns chain)) = badBlockRoots (db chain)"
  "chainHeadRoots (db (persistBlock deps config block r ns chain)) = chainHeadRoots (db chain)"
  "justifiedBlockRoot (db (persistBlock deps config block r ns chain)) =
     justifiedBlockRoot (db chain)"
  "justifiedStateRoot (db (persistBlock deps config block r ns chain)) =
     justifiedStateRoot (db chain)"
  "finalizedBlockRoot (db (persistBlock deps config block r ns chain)) =
     finalizedBlockRoot (db chain)"
  "finalizedStateRoot (db (persistBlock deps config block r ns chain)) =
     finalizedStateRoot (db chain)"
  "forkChoice (persistBlock deps config block r ns chain) =
     addBlock (block_slot block) r (parentRoot block) (forkChoice chain)"
  "latestState (persistBlock deps config block r ns chain) = latestState chain"
  "emitted (persistBlock deps config block r ns chain) = emitted chain"
  "opPool (persistBlock deps config block r ns chain) = opPool chain"
  "warnings (persistBlock deps config block r ns chain) = warnings chain"
  by (simp_all add: persistBlock_def Let_def updateDepositMerkleTree_fields setBlock_def
        setState_def)

lemma newlyJustified_frame:
  "newlyJustified preJust block r ns c = (c', res) \<Longrightarrow>
   blocks (db c') = blocks (db c) \<and> states (db c') = states (db c) \<and>
   badBlockRoots (db c') = badBlockRoots (db c) \<and>
   chainHeadRoots (db c') = chainHeadRoots (db c) \<and>
   finalizedBlockRoot (db c') = finalizedBlockRoot (db c) \<and>
   finalizedStateRoot (db c') = finalizedStateRoot (db c) \<and>
   fc_blocks (forkChoice c') = fc_blocks (forkChoice c) \<and>
   fc_attestations (forkChoice c') = fc_attestations (forkChoice c) \<and>
   fc_finalized (forkChoice c') = fc_finalized (forkChoice c) \<and>
   latestState c' = latestState c \<and> emitted c' = emitted c \<and>
   opPool c' = opPool c \<and> warnings c' = warnings c"
  by (auto simp: newlyJustified_def db_defs fc_defs Let_def split: option.splits if_splits)

lemma newlyFinalized_frame:
  "newlyFinalized preFin block r ns c = (c', res) \<Longrightarrow>
   blocks (db c') = blocks (db c) \<and> states (db c') = states (db c) \<and>
   badBlockRoots (db c') = badBlockRoots (db c) \<and>
   chainHeadRoots (db c') = chainHeadRoots (db c) \<and>
   justifiedBlockRoot (db c') = justifiedBlockRoot (db c) \<and>
   justifiedStateRoot (db c') = justifiedStateRoot (db c) \<and>
   fc_blocks (forkChoice c') = fc_blocks (forkChoice c) \<and>
   fc_attestations (forkChoice c') = fc_attestations (forkChoice c) \<and>
   fc_justified (forkChoice c') = fc_justified (forkChoice c) \<and>
   latestState c' = latestState c \<and> emitted c' = emitted c \<and>
   opPool c' = opPool c \<and> warnings c' = warnings c"
  by (auto simp: newlyFinalized_def db_defs fc_defs Let_def split: option.splits if_splits)

lemma newlyFinalized_skip:
  "\<not> preFin < epoch (finalizedCheckpoint ns) \<Longrightarrow>
   newlyFinalized preFin block r ns c = (c, Inr ())"
  by (simp add: newlyFinalized_def)

text \<open>The four ways in which the part after a successful transition ends.\<close>

lemma updateSystemState_cases:
  assumes "updateSystemState deps config block preSlot preFin preJust ns chain = (chain', res)"
  obtains
    (same_epoch)
      "\<not> computeEpochOfSlot config preSlot < computeEpochOfSlot config (slot ns)"
      "chain' = persistBlock deps config block (hashTreeRootBlock deps block) ns chain"
      "res = Inr (Some ns)"
  | (justified_throws) e where
      "computeEpochOfSlot config preSlot < computeEpochOfSlot config (slot ns)"
      "newlyJustified preJust block (hashTreeRootBlock deps block) ns
         (persistBlock deps config block (hashTreeRootBlock deps block) ns chain) = (chain', Inl e)"
      "res = Inl e"
  | (finalized_throws) c2 e where
      "computeEpochOfSlot config preSlot < computeEpochOfSlot config (slot ns)"
      "newlyJustified preJust block (hashTreeRootBlock deps block) ns
         (persistBlock deps config block (hashTreeRootBlock deps block) ns chain) = (c2, Inr ())"
      "newlyFinalized preFin block (hashTreeRootBlock deps block) ns c2 = (chain', Inl e)"
      "res = Inl e"
  | (completed) c2 where
      "computeEpochOfSlot config preSlot < computeEpochOfSlot config (slot ns)"
      "newlyJustified preJust block (hashTreeRootBlock deps block) ns
         (persistBlock deps config block (hashTreeRootBlock deps block) ns chain) = (c2, Inr ())"
      "newlyFinalized preFin block (hashTreeRootBlock deps block) ns c2 = (chain', Inr ())"
      "res = Inr (Some ns)"
proof -
  define r where "r = hashTreeRootBlock deps block"
  define chain1 where "chain1 = persistBlock deps config block r ns chain"
  obtain c2 r2 where j: "newlyJustified preJust block r ns chain1 = (c2, r2)"
    by (cases "newlyJustified preJust block r ns chain1") blast
  obtain c3 r3 where f: "newlyFinalized preFin block r ns c2 = (c3, r3)"
    by (cases "newlyFinalized preFin block r ns c2") blast
  show thesis
  proof (cases "computeEpochOfSlot config preSlot < computeEpochOfSlot config (slot ns)")
    case False
    with assms have "chain' = chain1" "res = Inr (Some ns)"
      by (simp_all add: updateSystemState_def Let_def chain1_def r_def)
    with False show thesis
      using same_epoch by (simp add: chain1_def r_def)
  next
    case True
    show thesis
    proof (cases r2)
      case (Inl e)
      with assms True j have "chain' = c2" "res = Inl e"
        by (simp_all add: updateSystemState_def Let_def chain1_def r_def)
      with True j Inl show thesis
        using justified_throws by (simp add: chain1_def r_def)
    next
      case (Inr u)
      show thesis
      proof (cases r3)
        case (Inl e)
        with assms True j f Inr have "chain' = c3" "res = Inl e"
          by (simp_all add: updateSystemState_def Let_def chain1_def r_def)
        with True j f Inr Inl show thesis
          using finalized_throws [of c2 e] by (simp add: chain1_def r_def)
      next
        case (Inr u')
        with assms True j f \<open>r2 = Inr u\<close> have "chain' = c3" "res = Inr (Some ns)"
          by (simp_all add: updateSystemState_def Let_def chain1_def r_def)
        with True j f Inr \<open>r2 = Inr u\<close> show thesis
          using completed [of c2] by (simp add: chain1_def r_def)
      qed
    qed
  qed
qed

text \<open>What every run of the part after a successful transition has written.\<close>

lemma updateSystemState_written:
  assumes run: "updateSystemState deps config block preSlot preFin preJust ns chain = (chain', res)"
  shows "blocks (db chain') = (blocks (db chain))(hashTreeRootBlock deps block \<mapsto> block) \<and>
    states (db chain') = (states (db chain))(stateRoot block \<mapsto> ns) \<and>
    badBlockRoots (db chain') = badBlockRoots (db chain) \<and>
    chainHeadRoots (db chain') = chainHeadRoots (db chain) \<and>
    fc_blocks (forkChoice chain') =
           fc_blocks (forkChoice chain)
           @ [(block_slot block, hashTreeRootBlock deps block, parentRoot block)] \<and>
    fc_attestations (forkChoice chain') = fc_attestations (forkChoice chain) \<and>
    latestState chain' = latestState chain \<and> emitted chain' = emitted chain \<and>
    opPool chain' = opPool chain \<and> warnings chain' = warnings chain"
  using run
proof (cases rule: updateSystemState_cases)
  case same_epoch
  then show ?thesis by (simp add: persistBlock_fields addBlock_def)
next
  case (justified_throws e)
  from newlyJustified_frame [OF justified_throws(2)] show ?thesis
    by (simp add: persistBlock_fields addBlock_def)
next
  case (finalized_throws c2 e)
  from newlyJustified_frame [OF finalized_throws(2)] newlyFinalized_frame [OF finalized_throws(3)]
  show ?thesis
    by (simp add: persistBlock_fields addBlock_def)
next
  case (completed c2)
  from newlyJustified_frame [OF completed(2)] newlyFinalized_frame [OF completed(3)]
  show ?thesis
    by (simp add: persistBlock_fields addBlock_def)
qed

subsection \<open>runStateTransition\<close>

lemma runStateTransition_throws:
  "stateTransition deps config st block True = Inl message \<Longrightarrow>
   runStateTransition deps config block (Some st) chain =
     (chain\<lparr>db := setBadBlockRoot (hashTreeRootBlock deps block) (db chain),
            warnings := warnings chain @ [(hashTreeRootBlock deps block, message)]\<rparr>,
      Inr None)"
  by (simp add: runStateTransition_def Let_def)

lemma runStateTransition_returns:
  "stateTransition deps config st block True = Inr ns \<Longrightarrow>
   runStateTransition deps config block (Some st) chain =
     updateSystemState deps config block (slot st) (epoch (finalizedCheckpoint st))
       (epoch (currentJustifiedCheckpoint st)) ns chain"
  by (simp add: runStateTransition_def Let_def)

text \<open>
  Claim C1, as amended. \<^verbatim>\<open>runStateTransition\<close> does not compare the root of the
  post-state with the state root that the block claims; it passes \<^verbatim>\<open>true\<close> to
  \<^verbatim>\<open>stateTransition\<close> and relies on it. When \<^verbatim>\<open>stateTransition\<close> returns a
  post-state, the block is stored, the post-state is stored under the state root that
  the block claims and the set of bad blocks is left as it is, whatever the root of the
  post-state. When \<^verbatim>\<open>stateTransition\<close> throws, whatever the reason, the root of the
  block is recorded as bad, a warning is logged and nothing else changes.
\<close>

theorem runStateTransition_state_root_unchecked:
  "(stateTransition deps config st block True = Inr ns \<longrightarrow>
      blocks (db (fst (runStateTransition deps config block (Some st) chain)))
        (hashTreeRootBlock deps block) = Some block \<and>
      states (db (fst (runStateTransition deps config block (Some st) chain)))
        (stateRoot block) = Some ns \<and>
      badBlockRoots (db (fst (runStateTransition deps config block (Some st) chain))) =
        badBlockRoots (db chain)) \<and>
   (stateTransition deps config st block True = Inl message \<longrightarrow>
      runStateTransition deps config block (Some st) chain =
        (chain\<lparr>db := (db chain)\<lparr>badBlockRoots :=
                   insert (hashTreeRootBlock deps block) (badBlockRoots (db chain))\<rparr>,
               warnings := warnings chain @ [(hashTreeRootBlock deps block, message)]\<rparr>,
         Inr None))"
proof (intro conjI impI)
  assume ok: "stateTransition deps config st block True = Inr ns"
  obtain chain' res where run:
    "updateSystemState deps config block (slot st) (epoch (finalizedCheckpoint st))
       (epoch (currentJustifiedCheckpoint st)) ns chain = (chain', res)"
    by (cases "updateSystemState deps config block (slot st) (epoch (finalizedCheckpoint st))
       (epoch (currentJustifiedCheckpoint st)) ns chain") blast
  from ok run have fst: "fst (runStateTransition deps config block (Some st) chain) = chain'"
    by (simp add: runStateTransition_returns)
  from updateSystemState_written [OF run] fst
  show "blocks (db (fst (runStateTransition deps config block (Some st) chain)))
        (hashTreeRootBlock deps block) = Some block"
    and "states (db (fst (runStateTransition deps config block (Some st) chain)))
        (stateRoot block) = Some ns"
    and "badBlockRoots (db (fst (runStateTransition deps config block (Some st) chain))) =
        badBlockRoots (db chain)"
    by simp_all
next
  assume "stateTransition deps config st block True = Inl message"
  then show "runStateTransition deps config block (Some st) chain =
        (chain\<lparr>db := (db chain)\<lparr>badBlockRoots :=
                   insert (hashTreeRootBlock deps block) (badBlockRoots (db chain))\<rparr>,
               warnings := warnings chain @ [(hashTreeRootBlock deps block, message)]\<rparr>,
         Inr None)"
    by (simp add: runStateTransition_throws setBadBlockRoot_def)
qed

theorem runStateTransition_state_root_unchecked_witness:
  "stateTransition exDeps exConfig (exState 0 0 0 []) (exBlock 4 1 [0] [99]) True =
     Inr (exState 1 0 0 [0]) \<and>
   states (db (fst (runStateTransition exDeps exConfig (exBlock 4 1 [0] [99])
                      (Some (exState 0 0 0 [])) exChain))) [99] = Some (exState 1 0 0 [0]) \<and>
   stateTransition exDeps exConfig (exState 0 0 0 []) (exBlock 3 1 [0] [1, 255]) True =
     Inl ''invalid block'' \<and>
   snd (runStateTransition exDeps exConfig (exBlock 3 1 [0] [1, 255])
          (Some (exState 0 0 0 [])) exChain) = Inr None \<and>
   [3] \<in> badBlockRoots (db (fst (runStateTransition exDeps exConfig (exBlock 3 1 [0] [1, 255])
                                   (Some (exState 0 0 0 [])) exChain)))"
proof -
  have ok: "stateTransition exDeps exConfig (exState 0 0 0 []) (exBlock 4 1 [0] [99]) True =
     Inr (exState 1 0 0 [0])"
    by (simp add: exDeps_def exBlock_def)
  have bad: "stateTransition exDeps exConfig (exState 0 0 0 []) (exBlock 3 1 [0] [1, 255]) True =
     Inl ''invalid block''"
    by (simp add: exDeps_def exBlock_def exState_def)
  have r3: "hashTreeRootBlock exDeps (exBlock 3 1 [0] [1, 255]) = [3]"
    by (simp add: exDeps_def exBlock_def)
  have s4: "stateRoot (exBlock 4 1 [0] [99]) = [99]"
    by (simp add: exBlock_def)
  from runStateTransition_state_root_unchecked
         [of exDeps exConfig "exState 0 0 0 []" "exBlock 4 1 [0] [99]" "exState 1 0 0 [0]"
             exChain "[]"] ok s4
  have a: "states (db (fst (runStateTransition exDeps exConfig (exBlock 4 1 [0] [99])
                      (Some (exState 0 0 0 [])) exChain))) [99] = Some (exState 1 0 0 [0])"
    by simp
  from runStateTransition_state_root_unchecked
         [of exDeps exConfig "exState 0 0 0 []" "exBlock 3 1 [0] [1, 255]" "exState 0 0 0 []"
             exChain "''invalid block''"] bad r3
  have b: "runStateTransition exDeps exConfig (exBlock 3 1 [0] [1, 255])
             (Some (exState 0 0 0 [])) exChain =
           (exChain\<lparr>db := (db exChain)\<lparr>badBlockRoots := insert [3] (badBlockRoots (db exChain))\<rparr>,
               warnings := warnings exChain @ [([3], ''invalid block'')]\<rparr>,
            Inr None)"
    by simp
  from ok bad a b show ?thesis by simp
qed

text \<open>
  Claim C1 as stated fails: the block with body 4 claims the state root \<open>[99]\<close>, its
  post-state has the root \<open>[1, 255]\<close>, and the block is accepted: \<^verbatim>\<open>receiveBlock\<close>
  returns normally, the block is stored and its root is not recorded as bad.
\<close>

theorem receiveBlock_state_root_mismatch_accepted:
  "stateTransition exDeps exConfig (exState 0 0 0 []) (exBlock 4 1 [0] [99]) True =
     Inr (exState 1 0 0 [0]) \<and>
   hashTreeRootState exDeps (exState 1 0 0 [0]) \<noteq> stateRoot (exBlock 4 1 [0] [99]) \<and>
   latestState exChain = Some (exState 0 0 0 []) \<and>
   snd (receiveBlock exDeps exConfig 2000 (exBlock 4 1 [0] [99]) exChain) = Inr () \<and>
   blocks (db (fst (receiveBlock exDeps exConfig 2000 (exBlock 4 1 [0] [99]) exChain)))
     (hashTreeRootBlock exDeps (exBlock 4 1 [0] [99])) = Some (exBlock 4 1 [0] [99]) \<and>
   hashTreeRootBlock exDeps (exBlock 4 1 [0] [99]) \<notin>
     badBlockRoots (db (fst (receiveBlock exDeps exConfig 2000 (exBlock 4 1 [0] [99]) exChain)))"
  by (simp add: ex_defs run_defs db_defs fc_defs Let_def)




text \<open>
  The guard of the statement under \<^verbatim>\<open>Newly finalized epoch\<close>:
  \<^verbatim>\<open>runStateTransition\<close> changes the finalized block root, the finalized state root
  and the finalized root of the fork choice only when the transition has returned a
  post-state in a later epoch than the state it was given and the finalized epoch of
  the post-state exceeds the finalized epoch of that state.
\<close>

lemma runStateTransition_finalized_guard:
  assumes "\<not> (\<exists>ns. stateTransition deps config st block True = Inr ns \<and>
              computeEpochOfSlot config (slot st) < computeEpochOfSlot config (slot ns) \<and>
              epoch (finalizedCheckpoint st) < epoch (finalizedCheckpoint ns))"
  shows "finalizedBlockRoot (db (fst (runStateTransition deps config block (Some st) chain))) =
           finalizedBlockRoot (db chain) \<and>
         finalizedStateRoot (db (fst (runStateTransition deps config block (Some st) chain))) =
           finalizedStateRoot (db chain) \<and>
         fc_finalized (forkChoice (fst (runStateTransition deps config block (Some st) chain))) =
           fc_finalized (forkChoice chain)"
proof (cases "stateTransition deps config st block True")
  case (Inl message)
  then show ?thesis
    by (simp add: runStateTransition_throws setBadBlockRoot_def)
next
  case (Inr ns)
  obtain chain' res where run:
    "updateSystemState deps config block (slot st) (epoch (finalizedCheckpoint st))
       (epoch (currentJustifiedCheckpoint st)) ns chain = (chain', res)"
    by (cases "updateSystemState deps config block (slot st) (epoch (finalizedCheckpoint st))
       (epoch (currentJustifiedCheckpoint st)) ns chain") blast
  from Inr run have fst: "fst (runStateTransition deps config block (Some st) chain) = chain'"
    by (simp add: runStateTransition_returns)
  have "finalizedBlockRoot (db chain') = finalizedBlockRoot (db chain) \<and>
        finalizedStateRoot (db chain') = finalizedStateRoot (db chain) \<and>
        fc_finalized (forkChoice chain') = fc_finalized (forkChoice chain)"
    using run
  proof (cases rule: updateSystemState_cases)
    case same_epoch
    then show ?thesis by (simp add: persistBlock_fields addBlock_def)
  next
    case (justified_throws e)
    from newlyJustified_frame [OF justified_throws(2)] show ?thesis
      by (simp add: persistBlock_fields addBlock_def)
  next
    case (finalized_throws c2 e)
    with assms Inr have "\<not> epoch (finalizedCheckpoint st) < epoch (finalizedCheckpoint ns)"
      by blast
    from newlyFinalized_skip [OF this] finalized_throws(3) show ?thesis
      by simp
  next
    case (completed c2)
    with assms Inr have "\<not> epoch (finalizedCheckpoint st) < epoch (finalizedCheckpoint ns)"
      by blast
    from newlyFinalized_skip [OF this] completed(3) have "chain' = c2"
      by simp
    with newlyJustified_frame [OF completed(2)] show ?thesis
      by (simp add: persistBlock_fields addBlock_def)
  qed
  with fst show ?thesis by simp
qed

subsection \<open>assembleAttestation\<close>

lemma incrementSlot_exact: "n < 2 ^ 53 \<Longrightarrow> incrementSlot n = n + 1"
  by (simp add: incrementSlot_def roundDouble_def)

lemma incrementSlot_stalls: "incrementSlot (2 ^ 53) = 2 ^ 53"
  by (simp add: incrementSlot_def roundDouble_def Let_def bitLength_numeral)

lemma advanceSlot_result:
  "s \<le> 2 ^ 53 \<Longrightarrow> advanceSlot state s = Some (state\<lparr>slot := max (slot state) s\<rparr>)"
proof (induction "s - slot state" arbitrary: state)
  case 0
  then have "\<not> slot state < s" by simp
  then show ?case
    by (subst advanceSlot.simps) (simp add: max_def)
next
  case (Suc n)
  then have lt: "slot state < s" by simp
  with Suc.prems have inc: "incrementSlot (slot state) = slot state + 1"
    by (simp add: incrementSlot_exact)
  from Suc have "n = s - slot (state\<lparr>slot := slot state + 1\<rparr>)" by simp
  from Suc.hyps(1) [OF this Suc.prems]
  have "advanceSlot (state\<lparr>slot := slot state + 1\<rparr>) s = Some (state\<lparr>slot := s\<rparr>)"
    using lt by (simp add: max_def)
  with lt inc show ?case
    by (subst advanceSlot.simps) (simp add: max_def)
qed

lemma advanceSlot_stalled:
  assumes "advanceSlot state s = Some y"
  shows "\<not> (slot state = 2 ^ 53 \<and> 2 ^ 53 < s)"
proof (rule advanceSlot.raw_induct
    [where P = "\<lambda>state s y. \<not> (slot state = 2 ^ 53 \<and> 2 ^ 53 < s)", OF _ assms])
  fix loop :: "BeaconState \<Rightarrow> nat \<Rightarrow> BeaconState option" and st s' y'
  assume IH: "\<And>st s' y'. loop st s' = Some y' \<Longrightarrow> \<not> (slot st = 2 ^ 53 \<and> 2 ^ 53 < s')"
    and run: "(if slot st < s' then loop (st\<lparr>slot := incrementSlot (slot st)\<rparr>) s'
               else Some st) = Some y'"
  show "\<not> (slot st = 2 ^ 53 \<and> 2 ^ 53 < s')"
  proof
    assume h: "slot st = 2 ^ 53 \<and> 2 ^ 53 < s'"
    with incrementSlot_stalls
    have "slot (st\<lparr>slot := incrementSlot (slot st)\<rparr>) = 2 ^ 53"
      by simp
    moreover from h run
    have "loop (st\<lparr>slot := incrementSlot (slot st)\<rparr>) s' = Some y'"
      by simp
    ultimately show False using IH h by blast
  qed
qed

lemma advanceSlot_never_returns:
  "slot state \<le> 2 ^ 53 \<Longrightarrow> 2 ^ 53 < s \<Longrightarrow> advanceSlot state s = None"
proof (induction "2 ^ 53 - slot state" arbitrary: state)
  case 0
  then have "slot state = 2 ^ 53" by simp
  with 0 advanceSlot_stalled [of state s] show ?case
    by (cases "advanceSlot state s") auto
next
  case (Suc n)
  then have lt: "slot state < 2 ^ 53" by simp
  then have inc: "incrementSlot (slot state) = slot state + 1"
    by (simp add: incrementSlot_exact)
  from Suc have n: "n = 2 ^ 53 - slot (state\<lparr>slot := slot state + 1\<rparr>)" by simp
  from lt have le: "slot (state\<lparr>slot := slot state + 1\<rparr>) \<le> 2 ^ 53" by simp
  from Suc.hyps(1) [OF n le Suc.prems(2)]
  have "advanceSlot (state\<lparr>slot := slot state + 1\<rparr>) s = None" .
  with lt inc Suc.prems(2) show ?case
    by (subst advanceSlot.simps) simp
qed

text \<open>
  Claim C10, as amended. When the slot asked for is at most \<open>2 ^ 53\<close>, the loop of
  \<^verbatim>\<open>assembleAttestation\<close> ends, and leaves the state given with its slot set to the
  greater of its slot and the slot asked for, every other field as it was.
  \<^verbatim>\<open>assembleAttestationData\<close> is then called with that state, and the call returns if
  and only if that function returns. When that function returns data, the attestation
  returned has no custody bit indices, no signature and that data; when it throws, so
  does the call. The state after the call is the state as that function leaves it.
\<close>

theorem assembleAttestation_result:
  assumes "s \<le> 2 ^ 53"
  shows "advanceSlot state s = Some (state\<lparr>slot := max (slot state) s\<rparr>) \<and>
         (assembleAttestation assembleAttestationData config d state headBlock s shard = None
            \<longleftrightarrow>
          assembleAttestationData config d (state\<lparr>slot := max (slot state) s\<rparr>) headBlock
            shard = None) \<and>
         (\<forall>state2 attestationData.
            assembleAttestationData config d (state\<lparr>slot := max (slot state) s\<rparr>) headBlock
              shard = Some (state2, Inr attestationData) \<longrightarrow>
            assembleAttestation assembleAttestationData config d state headBlock s shard =
              Some (state2,
                    Inr \<lparr>custodyBit0Indices = [],
                         custodyBit1Indices = [],
                         indexed_data = attestationData,
                         indexed_signature = None\<rparr>)) \<and>
         (\<forall>state2 message.
            assembleAttestationData config d (state\<lparr>slot := max (slot state) s\<rparr>) headBlock
              shard = Some (state2, Inl message) \<longrightarrow>
            assembleAttestation assembleAttestationData config d state headBlock s shard =
              Some (state2, Inl message))"
proof -
  from assms have loop: "advanceSlot state s = Some (state\<lparr>slot := max (slot state) s\<rparr>)"
    by (rule advanceSlot_result)
  then show ?thesis
    by (simp add: assembleAttestation_def split: option.splits prod.splits sum.splits)
qed

theorem assembleAttestation_result_witness:
  "(5 :: nat) \<le> 2 ^ 53 \<and>
   advanceSlot (exState 3 0 0 []) 5 = Some (exState 5 0 0 []) \<and>
   assembleAttestation
     (\<lambda>config d state headBlock shard.
        Some (state, Inr \<lparr>beaconBlockRoot = [4], source = \<lparr>epoch = 0, root = []\<rparr>,
                          target = \<lparr>epoch = 0, root = [0]\<rparr>\<rparr>))
     exConfig emptyDb (exState 3 0 0 []) (exBlock 4 1 [0] [1, 255]) 5 0 =
     Some (exState 5 0 0 [],
           Inr \<lparr>custodyBit0Indices = [],
                custodyBit1Indices = [],
                indexed_data = \<lparr>beaconBlockRoot = [4], source = \<lparr>epoch = 0, root = []\<rparr>,
                                 target = \<lparr>epoch = 0, root = [0]\<rparr>\<rparr>,
                indexed_signature = None\<rparr>)"
proof -
  let ?data = "\<lparr>beaconBlockRoot = [4], source = \<lparr>epoch = 0, root = []\<rparr>,
                target = \<lparr>epoch = 0, root = [0]\<rparr>\<rparr>"
  let ?callee = "\<lambda>(config :: Config) (d :: BeaconDb) (state :: BeaconState)
                   (headBlock :: BeaconBlock) (shard :: nat).
                   Some (state, Inr ?data :: string + AttestationData)"
  have h: "(5 :: nat) \<le> 2 ^ 53"
    by simp
  have adv: "(exState 3 0 0 [])\<lparr>slot := max (slot (exState 3 0 0 [])) 5\<rparr> = exState 5 0 0 []"
    by (simp add: exState_def)
  from assembleAttestation_result [OF h, of "exState 3 0 0 []" ?callee exConfig emptyDb
         "exBlock 4 1 [0] [1, 255]" 0] h
  show ?thesis
    by (simp add: adv)
qed

text \<open>
  Claim C10 as stated fails: the slot of a state is a double, and incrementing
  \<open>2 ^ 53\<close> gives \<open>2 ^ 53\<close> again. From the slot 0, with the slot \<open>2 ^ 53 + 2\<close> asked
  for, the loop never ends and the call does not return.
\<close>

theorem assembleAttestation_never_returns:
  "incrementSlot (2 ^ 53) = 2 ^ 53 \<and>
   advanceSlot (exState 0 0 0 []) (2 ^ 53 + 2) = None \<and>
   assembleAttestation
     (\<lambda>config d state headBlock shard.
        Some (state, Inr \<lparr>beaconBlockRoot = [4], source = \<lparr>epoch = 0, root = []\<rparr>,
                          target = \<lparr>epoch = 0, root = [0]\<rparr>\<rparr>))
     exConfig emptyDb (exState 0 0 0 []) (exBlock 4 1 [0] [1, 255]) (2 ^ 53 + 2) 0 = None"
proof -
  have "slot (exState 0 0 0 []) \<le> 2 ^ 53"
    by (simp add: exState_def)
  moreover have "(2 :: nat) ^ 53 < 2 ^ 53 + 2"
    by simp
  ultimately have "advanceSlot (exState 0 0 0 []) (2 ^ 53 + 2) = None"
    by (rule advanceSlot_never_returns)
  with incrementSlot_stalls show ?thesis
    by (simp add: assembleAttestation_def)
qed

subsection \<open>receiveAttestation\<close>

lemma addAttestations_log:
  "addAttestations r vs (map f vs) fc =
     fc\<lparr>fc_attestations := fc_attestations fc @ map (\<lambda>v. (r, v, f v)) vs\<rparr>"
  by (induction vs arbitrary: fc) (simp_all add: addAttestation_def)

text \<open>
  Claim C5, as amended. \<^verbatim>\<open>receiveAttestation\<close> makes no check of the number of
  aggregation bits. When \<^verbatim>\<open>getAttestingIndices\<close> returns no index, as for an
  attestation with no bit set, no vote is added to the fork choice, and the attestation
  is not rejected: the call returns normally, and the only change to the chain is that
  \<^verbatim>\<open>processedAttestation\<close> is emitted.
\<close>

theorem receiveAttestation_no_index:
  assumes "getAttestingIndices deps config (latestState chain) (data attestation)
             (aggregationBits attestation) = Inr []"
  shows "receiveAttestation deps config attestation chain =
           (chain\<lparr>emitted := emitted chain @ [ProcessedAttestation attestation]\<rparr>, Inr ())"
  using assms by (cases "latestState chain") (simp_all add: receiveAttestation_def)

theorem receiveAttestation_no_index_witness:
  "getAttestingIndices exDeps exConfig (latestState exChain)
     (data \<lparr>aggregationBits = [False, False],
            data = \<lparr>beaconBlockRoot = [0], source = \<lparr>epoch = 0, root = []\<rparr>,
                    target = \<lparr>epoch = 0, root = [0]\<rparr>\<rparr>\<rparr>)
     (aggregationBits \<lparr>aggregationBits = [False, False],
            data = \<lparr>beaconBlockRoot = [0], source = \<lparr>epoch = 0, root = []\<rparr>,
                    target = \<lparr>epoch = 0, root = [0]\<rparr>\<rparr>\<rparr>) = Inr [] \<and>
   receiveAttestation exDeps exConfig
     \<lparr>aggregationBits = [False, False],
      data = \<lparr>beaconBlockRoot = [0], source = \<lparr>epoch = 0, root = []\<rparr>,
              target = \<lparr>epoch = 0, root = [0]\<rparr>\<rparr>\<rparr> exChain =
     (exChain\<lparr>emitted := emitted exChain @
        [ProcessedAttestation
           \<lparr>aggregationBits = [False, False],
            data = \<lparr>beaconBlockRoot = [0], source = \<lparr>epoch = 0, root = []\<rparr>,
                    target = \<lparr>epoch = 0, root = [0]\<rparr>\<rparr>\<rparr>]\<rparr>, Inr ()) \<and>
   forkChoice (fst (receiveAttestation exDeps exConfig
          \<lparr>aggregationBits = [False, False],
           data = \<lparr>beaconBlockRoot = [0], source = \<lparr>epoch = 0, root = []\<rparr>,
                   target = \<lparr>epoch = 0, root = [0]\<rparr>\<rparr>\<rparr> exChain)) = forkChoice exChain"
proof -
  let ?att = "\<lparr>aggregationBits = [False, False],
           data = \<lparr>beaconBlockRoot = [0], source = \<lparr>epoch = 0, root = []\<rparr>,
                   target = \<lparr>epoch = 0, root = [0]\<rparr>\<rparr>\<rparr>"
  have none: "getAttestingIndices exDeps exConfig (latestState exChain) (data ?att)
                (aggregationBits ?att) = Inr []"
    by (simp add: exDeps_def)
  from receiveAttestation_no_index [OF none] none
  show ?thesis by simp
qed

text \<open>
  Claim C5 as stated fails: the attestation below has no aggregation bit set, and it is
  not rejected: the call returns normally and the event is emitted.
\<close>

theorem receiveAttestation_zero_bits_accepted:
  "length (filter id (aggregationBits
      \<lparr>aggregationBits = [False, False],
       data = \<lparr>beaconBlockRoot = [0], source = \<lparr>epoch = 0, root = []\<rparr>,
               target = \<lparr>epoch = 0, root = [0]\<rparr>\<rparr>\<rparr>)) = 0 \<and>
   snd (receiveAttestation exDeps exConfig
          \<lparr>aggregationBits = [False, False],
           data = \<lparr>beaconBlockRoot = [0], source = \<lparr>epoch = 0, root = []\<rparr>,
                   target = \<lparr>epoch = 0, root = [0]\<rparr>\<rparr>\<rparr> exChain) = Inr () \<and>
   emitted (fst (receiveAttestation exDeps exConfig
          \<lparr>aggregationBits = [False, False],
           data = \<lparr>beaconBlockRoot = [0], source = \<lparr>epoch = 0, root = []\<rparr>,
                   target = \<lparr>epoch = 0, root = [0]\<rparr>\<rparr>\<rparr> exChain)) =
     [ProcessedAttestation
        \<lparr>aggregationBits = [False, False],
         data = \<lparr>beaconBlockRoot = [0], source = \<lparr>epoch = 0, root = []\<rparr>,
                 target = \<lparr>epoch = 0, root = [0]\<rparr>\<rparr>\<rparr>]"
  by (simp add: receiveAttestation_def ex_defs Let_def)

text \<open>
  Claim C6, as amended. The weight that \<^verbatim>\<open>receiveAttestation\<close> gives to the fork
  choice for an attesting validator is the entry of that validator in the balances of
  the latest state, \<^verbatim>\<open>latestState.balances[index]\<close> (\<^verbatim>\<open>undefined\<close> beyond the end
  of the array), not its effective balance: the votes added are, in order, one for each
  index returned by \<^verbatim>\<open>getAttestingIndices\<close>, for the block root of the attestation,
  with that weight.
\<close>

theorem receiveAttestation_weight_is_balance:
  assumes "latestState chain = Some state"
    and "getAttestingIndices deps config (Some state) (data attestation)
           (aggregationBits attestation) = Inr vs"
  shows "fc_attestations (forkChoice (fst (receiveAttestation deps config attestation chain))) =
           fc_attestations (forkChoice chain)
           @ map (\<lambda>index. (beaconBlockRoot (data attestation), index,
                            if index < length (balances state)
                            then Some (balances state ! index) else None))
               vs"
proof -
  have "balanceAt state = (\<lambda>index. if index < length (balances state)
                            then Some (balances state ! index) else None)"
    by (rule ext) (simp add: balanceAt_def)
  with assms show ?thesis
    by (simp add: receiveAttestation_def Let_def addAttestations_log)
qed

theorem receiveAttestation_weight_is_balance_witness:
  "latestState exChain = Some (exState 0 0 0 []) \<and>
   fc_attestations (forkChoice (fst (receiveAttestation exDeps exConfig
          \<lparr>aggregationBits = [True, True],
           data = \<lparr>beaconBlockRoot = [0], source = \<lparr>epoch = 0, root = []\<rparr>,
                   target = \<lparr>epoch = 0, root = [0]\<rparr>\<rparr>\<rparr> exChain))) =
     [([0], 0, Some 33), ([0], 1, Some 31)]"
proof -
  let ?att = "\<lparr>aggregationBits = [True, True],
           data = \<lparr>beaconBlockRoot = [0], source = \<lparr>epoch = 0, root = []\<rparr>,
                   target = \<lparr>epoch = 0, root = [0]\<rparr>\<rparr>\<rparr>"
  have h: "latestState exChain = Some (exState 0 0 0 [])"
    by (simp add: exChain_def initializeBeaconChain_def Let_def)
  have vs: "getAttestingIndices exDeps exConfig (Some (exState 0 0 0 [])) (data ?att)
              (aggregationBits ?att) = Inr [0, 1]"
    by (simp add: exDeps_def)
  have fc: "fc_attestations (forkChoice exChain) = []"
    by (simp add: ex_defs fc_defs Let_def)
  have bal: "balances (exState 0 0 0 []) = [33, 31]"
    by (simp add: exState_def)
  from receiveAttestation_weight_is_balance [OF h vs] h fc bal
  show ?thesis by simp
qed

text \<open>
  Claim C6 as stated fails: validator 0 has the effective balance 32 and the balance
  33, and its vote is given to the fork choice with the weight 33.
\<close>

theorem receiveAttestation_weight_not_effective_balance:
  "latestState exChain = Some (exState 0 0 0 []) \<and>
   effectiveBalance (validators (exState 0 0 0 []) ! 0) = 32 \<and>
   fc_attestations (forkChoice (fst (receiveAttestation exDeps exConfig
          \<lparr>aggregationBits = [True, False],
           data = \<lparr>beaconBlockRoot = [0], source = \<lparr>epoch = 0, root = []\<rparr>,
                   target = \<lparr>epoch = 0, root = [0]\<rparr>\<rparr>\<rparr> exChain))) =
     [([0], 0, Some 33)]"
  by (simp add: receiveAttestation_def balanceAt_def ex_defs fc_defs Let_def)

subsection \<open>applyForkChoiceRule\<close>

text \<open>
  Claim C8, as amended. When the head of the fork choice is the stored head root,
  \<^verbatim>\<open>applyForkChoiceRule\<close> changes nothing and emits nothing. When it differs and the
  store has the block at the new head, \<^verbatim>\<open>applyForkChoiceRule\<close> calls
  \<^verbatim>\<open>setChainHeadRoots\<close> with the state root of that block and that block, and changes
  nothing else; it emits no event.
\<close>

theorem applyForkChoiceRule_no_event:
  assumes "getChainHeadRoot (db chain) = Some currentRoot"
  shows "(head deps (forkChoice chain) = currentRoot \<longrightarrow>
            applyForkChoiceRule deps chain = (chain, Inr ())) \<and>
         (head deps (forkChoice chain) \<noteq> currentRoot \<and>
          getBlock (head deps (forkChoice chain)) (db chain) = Some block \<longrightarrow>
            (\<exists>r. applyForkChoiceRule deps chain =
               (chain\<lparr>db := (db chain)\<lparr>chainHeadRoots :=
                                Some (r, stateRoot block, Some block, None)\<rparr>\<rparr>, Inr ())) \<and>
            emitted (fst (applyForkChoiceRule deps chain)) = emitted chain)"
  using assms by (auto simp: applyForkChoiceRule_def Let_def setChainHeadRoots_def)

theorem applyForkChoiceRule_no_event_witness:
  "getChainHeadRoot (db (fst (receiveBlock exDeps exConfig 2000 (exBlock 4 1 [0] [1, 255])
                                exChain))) = Some [0] \<and>
   head exDeps (forkChoice (fst (receiveBlock exDeps exConfig 2000 (exBlock 4 1 [0] [1, 255])
                                   exChain))) \<noteq> [0] \<and>
   getBlock (head exDeps (forkChoice (fst (receiveBlock exDeps exConfig 2000
                                             (exBlock 4 1 [0] [1, 255]) exChain))))
     (db (fst (receiveBlock exDeps exConfig 2000 (exBlock 4 1 [0] [1, 255]) exChain))) =
     Some (exBlock 4 1 [0] [1, 255]) \<and>
   emitted (fst (applyForkChoiceRule exDeps
                   (fst (receiveBlock exDeps exConfig 2000 (exBlock 4 1 [0] [1, 255])
                           exChain)))) =
     emitted (fst (receiveBlock exDeps exConfig 2000 (exBlock 4 1 [0] [1, 255]) exChain)) \<and>
   getChainHeadRoot (db exChain) = Some [0] \<and>
   head exDeps (forkChoice exChain) = [0] \<and>
   applyForkChoiceRule exDeps exChain = (exChain, Inr ())"
proof -
  let ?c = "fst (receiveBlock exDeps exConfig 2000 (exBlock 4 1 [0] [1, 255]) exChain)"
  have h: "getChainHeadRoot (db ?c) = Some [0]"
    by (simp add: ex_defs run_defs db_defs fc_defs Let_def)
  have hd: "head exDeps (forkChoice ?c) \<noteq> [0]"
    by (simp add: ex_defs run_defs db_defs fc_defs Let_def)
  have blk: "getBlock (head exDeps (forkChoice ?c)) (db ?c) = Some (exBlock 4 1 [0] [1, 255])"
    by (simp add: ex_defs run_defs db_defs fc_defs Let_def)
  have h0: "getChainHeadRoot (db exChain) = Some [0]"
    by (simp add: ex_defs db_defs fc_defs Let_def)
  have hd0: "head exDeps (forkChoice exChain) = [0]"
    by (simp add: ex_defs db_defs fc_defs Let_def)
  from applyForkChoiceRule_no_event [OF h, of exDeps "exBlock 4 1 [0] [1, 255]"] hd blk
  have a: "emitted (fst (applyForkChoiceRule exDeps ?c)) = emitted ?c"
    by blast
  from applyForkChoiceRule_no_event [OF h0, of exDeps "exBlock 4 1 [0] [1, 255]"] hd0
  have b: "applyForkChoiceRule exDeps exChain = (exChain, Inr ())"
    by blast
  from h hd blk a h0 hd0 b show ?thesis by blast
qed

text \<open>
  Claim C8 as stated fails. After the block with body 4 has been received, the head of
  the fork choice is its root \<open>[4]\<close> and the stored head root is \<open>[0]\<close>.
  \<^verbatim>\<open>applyForkChoiceRule\<close> returns normally and no event is emitted: the events are
  the ones emitted before, and the stored head root is still \<open>[0]\<close>.
\<close>

theorem applyForkChoiceRule_head_changed_no_event:
  "getChainHeadRoot (db (fst (receiveBlock exDeps exConfig 2000 (exBlock 4 1 [0] [1, 255])
                                exChain))) = Some [0] \<and>
   head exDeps (forkChoice (fst (receiveBlock exDeps exConfig 2000 (exBlock 4 1 [0] [1, 255])
                                   exChain))) = [4] \<and>
   snd (applyForkChoiceRule exDeps
          (fst (receiveBlock exDeps exConfig 2000 (exBlock 4 1 [0] [1, 255]) exChain))) =
     Inr () \<and>
   emitted (fst (receiveBlock exDeps exConfig 2000 (exBlock 4 1 [0] [1, 255]) exChain)) =
     [ProcessedBlock (exBlock 4 1 [0] [1, 255])] \<and>
   emitted (fst (applyForkChoiceRule exDeps
                   (fst (receiveBlock exDeps exConfig 2000 (exBlock 4 1 [0] [1, 255])
                           exChain)))) =
     [ProcessedBlock (exBlock 4 1 [0] [1, 255])] \<and>
   getChainHeadRoot (db (fst (applyForkChoiceRule exDeps
                   (fst (receiveBlock exDeps exConfig 2000 (exBlock 4 1 [0] [1, 255])
                           exChain))))) = Some [0]"
  by (simp add: applyForkChoiceRule_def ex_defs run_defs db_defs fc_defs Let_def)

subsection \<open>receiveBlock and the bad blocks\<close>

















end
